theory Spec2Isabelle
  imports Complex_Main
begin

section \<open>OpenBox: the falling-sand simulation of \<^verbatim>\<open>src/main.cpp\<close>\<close>

text \<open>
  The simulation core of \<^verbatim>\<open>main.cpp\<close> as HOL functions. Conventions of the embedding:
  \<^item> C++ \<^verbatim>\<open>int\<close> coordinates and the lifetime counter are \<open>int\<close>; no arithmetic on them
    leaves the 32-bit range (coordinates stay within one of the grid, the lifetime is
    only decremented while positive).
  \<^item> C++ \<^verbatim>\<open>float\<close> is idealised as \<open>real\<close>: rounding is not modelled.
  \<^item> The global \<^verbatim>\<open>grid\<close>, a \<^verbatim>\<open>vector<vector<Particle>>\<close> read as \<^verbatim>\<open>grid[x][y]\<close>, is a store
    from coordinates \<open>(x, y)\<close> to cells. The program guards every access with
    \<^verbatim>\<open>IsValidPosition\<close> (or an equivalent bound), so only valid coordinates are ever read
    or written.
  \<^item> A reference \<^verbatim>\<open>Particle& current = grid[x][y]\<close> names the position, not the particle:
    after a \<^verbatim>\<open>std::swap\<close> it denotes whatever now sits at \<open>(x, y)\<close>.
  \<^item> Functions are polymorphic in the extension field of the \<open>Particle\<close> record. No
    statement of the program reads or writes it, \<^verbatim>\<open>std::swap\<close> moves it with the cell,
    so it can serve as the identity of a cell's occupant.
  \<^item> raylib (\<^verbatim>\<open>raylib.h\<close>) is not part of the sources: its colour constants and
    \<^verbatim>\<open>GetRandomValue\<close> are modelled from its documentation.
\<close>

subsection \<open>Constants\<close>

definition SCREEN_WIDTH :: int where "SCREEN_WIDTH = 1280"
definition SCREEN_HEIGHT :: int where "SCREEN_HEIGHT = 720"
definition CELL_SIZE :: int where "CELL_SIZE = 8"
definition GRID_WIDTH :: int where "GRID_WIDTH = SCREEN_WIDTH div CELL_SIZE"
definition GRID_HEIGHT :: int where "GRID_HEIGHT = SCREEN_HEIGHT div CELL_SIZE"
definition TEMPERATURE_SPREAD :: real where "TEMPERATURE_SPREAD = 0.2"
definition COOLING_RATE :: real where "COOLING_RATE = 0.05"

subsection \<open>Data model\<close>

datatype ParticleType =
  EMPTY | SAND | WATER | WALL | FIRE | SMOKE | STEAM | LAVA
  | ICE | OIL | ACID | WOOD | PLANT | SALT | GLASS | METAL

text \<open>raylib's \<^verbatim>\<open>Color\<close>: four bytes r, g, b, a.\<close>

datatype Color = RGBA nat nat nat nat

text \<open>Modelled from raylib.h, which is not among the sources: the colour macros.\<close>

definition LIGHTGRAY :: Color where "LIGHTGRAY = RGBA 200 200 200 255"
definition DARKGRAY :: Color where "DARKGRAY = RGBA 80 80 80 255"
definition GOLD :: Color where "GOLD = RGBA 255 203 0 255"
definition ORANGE :: Color where "ORANGE = RGBA 255 161 0 255"
definition RED :: Color where "RED = RGBA 230 41 55 255"
definition GREEN :: Color where "GREEN = RGBA 0 228 48 255"
definition DARKGREEN :: Color where "DARKGREEN = RGBA 0 117 44 255"
definition SKYBLUE :: Color where "SKYBLUE = RGBA 102 191 255 255"
definition BLUE :: Color where "BLUE = RGBA 0 121 241 255"
definition BEIGE :: Color where "BEIGE = RGBA 211 176 131 255"
definition BROWN :: Color where "BROWN = RGBA 127 106 79 255"
definition WHITE :: Color where "WHITE = RGBA 255 255 255 255"
definition BLACK :: Color where "BLACK = RGBA 0 0 0 255"

text \<open>Modelled from raylib: \<^verbatim>\<open>Fade(WHITE, 0.5f)\<close> keeps r, g, b and sets a to 255 * 0.5,
  truncated.\<close>

definition FADE_WHITE_HALF :: Color where "FADE_WHITE_HALF = RGBA 255 255 255 127"

record ParticleProperties =
  pcolor :: Color
  movable :: bool
  flammable :: bool
  mass :: real
  ptemperature :: real
  conductivity :: real
  viscosity :: real
  plifetime :: int

record Particle =
  type :: ParticleType
  color :: Color
  updated :: bool
  temperature :: real
  velocity_y :: real
  velocity_x :: real
  lifetime :: int

definition props ::
  "Color \<Rightarrow> bool \<Rightarrow> bool \<Rightarrow> real \<Rightarrow> real \<Rightarrow> real \<Rightarrow> real \<Rightarrow> int \<Rightarrow> ParticleProperties" where
  "props c mv fl m t cd v l =
     \<lparr>pcolor = c, movable = mv, flammable = fl, mass = m, ptemperature = t,
      conductivity = cd, viscosity = v, plifetime = l\<rparr>"

text \<open>
  The lookup table \<^verbatim>\<open>particleProps\<close>, always read with \<^verbatim>\<open>operator[]\<close>. The table has no
  entry for \<^verbatim>\<open>EMPTY\<close>: \<^verbatim>\<open>operator[]\<close> of \<^verbatim>\<open>std::unordered_map\<close> then inserts and returns a
  value-initialised record, all fields zero or false.
\<close>

fun particleProps :: "ParticleType \<Rightarrow> ParticleProperties" where
  "particleProps SAND = props GOLD True False 1.5 20 0.2 0 (-1)"
| "particleProps WATER = props BLUE True False 1 20 0.5 0.8 (-1)"
| "particleProps WALL = props DARKGRAY False False 999 20 0.1 0 (-1)"
| "particleProps FIRE = props RED True False 0.1 800 1 0 100"
| "particleProps SMOKE = props DARKGRAY True False 0.2 100 0.1 0.3 200"
| "particleProps STEAM = props LIGHTGRAY True False 0.3 100 0.3 0.2 150"
| "particleProps LAVA = props ORANGE True False 2 1000 0.8 0.9 (-1)"
| "particleProps ICE = props SKYBLUE False False 0.9 (-10) 0.9 0 (-1)"
| "particleProps OIL = props BROWN True True 0.8 20 0.1 0.4 (-1)"
| "particleProps ACID = props GREEN True False 1.2 20 0.3 0.5 (-1)"
| "particleProps WOOD = props BEIGE False True 0.7 20 0.2 0 (-1)"
| "particleProps PLANT = props DARKGREEN False True 0.6 20 0.3 0 (-1)"
| "particleProps SALT = props WHITE True False 1.1 20 0.2 0 (-1)"
| "particleProps GLASS = props FADE_WHITE_HALF False False 1.5 20 0.4 0 (-1)"
| "particleProps METAL = props LIGHTGRAY False False 2 20 0.9 0 (-1)"
| "particleProps EMPTY = props (RGBA 0 0 0 0) False False 0 0 0 0 0"

type_synonym pos = "int \<times> int"

type_synonym 'a cells = "pos \<Rightarrow> 'a Particle_scheme"

text \<open>
  The mutable globals the simulation step works on: the grid and the state of raylib's
  random generator, here the sequence of raw draws still to come.
\<close>

record 'a world =
  grid :: "'a cells"
  rnd :: "nat \<Rightarrow> nat"

text \<open>
  Modelled from raylib, which is not among the sources: \<^verbatim>\<open>GetRandomValue(min, max)\<close>
  returns a value between \<open>min\<close> and \<open>max\<close>, both included, and advances the generator.
\<close>

definition GetRandomValue :: "int \<Rightarrow> int \<Rightarrow> 'a world \<Rightarrow> int \<times> 'a world" where
  "GetRandomValue lo hi w =
     (lo + int (rnd w 0 mod nat (hi - lo + 1)), w\<lparr>rnd := \<lambda>n. rnd w (Suc n)\<rparr>)"

subsection \<open>Grid access\<close>

definition IsValidPosition :: "int \<Rightarrow> int \<Rightarrow> bool" where
  "IsValidPosition x y \<longleftrightarrow> x \<ge> 0 \<and> x < GRID_WIDTH \<and> y \<ge> 0 \<and> y < GRID_HEIGHT"

text \<open>\<^verbatim>\<open>std::swap(grid[a], grid[b])\<close>: the two cells exchange their whole contents.\<close>

definition swap_cells :: "'a cells \<Rightarrow> pos \<Rightarrow> pos \<Rightarrow> 'a cells" where
  "swap_cells g p q = g(p := g q, q := g p)"

text \<open>The two loops \<^verbatim>\<open>for dx = -1..1\<close>, \<^verbatim>\<open>for dy = -1..1\<close> around a body.\<close>

definition for_neighbours :: "(int \<Rightarrow> int \<Rightarrow> 's \<Rightarrow> 's) \<Rightarrow> 's \<Rightarrow> 's" where
  "for_neighbours body s = fold (\<lambda>dx. fold (\<lambda>dy. body dx dy) [-1..1]) [-1..1] s"

subsection \<open>InitializeGrid\<close>

definition InitializeGrid_cell :: "int \<Rightarrow> int \<Rightarrow> 'a Particle_scheme \<Rightarrow> 'a Particle_scheme" where
  "InitializeGrid_cell x y c =
     (let c1 = c\<lparr>type := EMPTY, color := BLACK, temperature := 20, velocity_x := 0,
                 velocity_y := 0, lifetime := -1, updated := False\<rparr>;
          c2 = (if y = GRID_HEIGHT - 1
                then c1\<lparr>type := WALL, color := pcolor (particleProps WALL)\<rparr> else c1)
      in if x = 0 \<or> x = GRID_WIDTH - 1
         then c2\<lparr>type := WALL, color := pcolor (particleProps WALL)\<rparr> else c2)"

definition InitializeGrid :: "'a cells \<Rightarrow> 'a cells" where
  "InitializeGrid g =
     fold (\<lambda>x. fold (\<lambda>y g. g((x, y) := InitializeGrid_cell x y (g (x, y))))
                 [0..GRID_HEIGHT - 1])
          [0..GRID_WIDTH - 1] g"

subsection \<open>PlaceParticles\<close>

text \<open>
  The global \<^verbatim>\<open>brushSize\<close> is an argument. \<^verbatim>\<open>sqrt\<close> of the integer \<^verbatim>\<open>dx*dx + dy*dy\<close> is the
  real square root.
\<close>

definition PlaceParticles_cell :: "ParticleType \<Rightarrow> 'a Particle_scheme \<Rightarrow> 'a Particle_scheme" where
  "PlaceParticles_cell t c =
     c\<lparr>type := t, color := pcolor (particleProps t),
       temperature := ptemperature (particleProps t),
       velocity_x := 0, velocity_y := 0,
       lifetime := plifetime (particleProps t), updated := False\<rparr>"

definition PlaceParticles_body ::
  "int \<Rightarrow> int \<Rightarrow> int \<Rightarrow> ParticleType \<Rightarrow> int \<Rightarrow> int \<Rightarrow> 'a cells \<Rightarrow> 'a cells" where
  "PlaceParticles_body brushSize x y t dx dy g =
     (let newX = x + dx; newY = y + dy in
      if IsValidPosition newX newY then
        (let distance = sqrt (real_of_int (dx * dx + dy * dy)) in
         if distance \<le> real_of_int brushSize
         then g((newX, newY) := PlaceParticles_cell t (g (newX, newY)))
         else g)
      else g)"

definition PlaceParticles :: "int \<Rightarrow> 'a cells \<Rightarrow> int \<Rightarrow> int \<Rightarrow> ParticleType \<Rightarrow> 'a cells" where
  "PlaceParticles brushSize g x y t =
     (if \<not> IsValidPosition x y then g
      else fold (\<lambda>dx. fold (\<lambda>dy. PlaceParticles_body brushSize x y t dx dy)
                        [- brushSize..brushSize])
                [- brushSize..brushSize] g)"

subsection \<open>UpdatePhysics\<close>

text \<open>The tail of \<^verbatim>\<open>UpdatePhysics\<close> after a move: \<^verbatim>\<open>current\<close> is the cell at \<open>(x, y)\<close>.\<close>

definition reset_velocity :: "'a cells \<Rightarrow> pos \<Rightarrow> 'a cells" where
  "reset_velocity g p = g(p := (g p)\<lparr>velocity_x := 0, velocity_y := 0\<rparr>)"

definition move_to :: "'a world \<Rightarrow> pos \<Rightarrow> pos \<Rightarrow> 'a world" where
  "move_to w p q = w\<lparr>grid := reset_velocity (swap_cells (grid w) p q) p\<rparr>"

definition UpdatePhysics :: "'a world \<Rightarrow> int \<Rightarrow> int \<Rightarrow> 'a world" where
  "UpdatePhysics w x y =
     (let current = grid w (x, y) in
      if \<not> movable (particleProps (type current)) then w
      else if y < GRID_HEIGHT - 1 \<and> type (grid w (x, y + 1)) = EMPTY
        then move_to w (x, y) (x, y + 1)
      else if type current = WATER \<or> type current = OIL then
        (let (r, w1) = GetRandomValue 0 1 w; dir = r * 2 - 1 in
         if IsValidPosition (x + dir) y \<and> type (grid w1 (x + dir, y)) = EMPTY
           then move_to w1 (x, y) (x + dir, y)
         else if IsValidPosition (x - dir) y \<and> type (grid w1 (x - dir, y)) = EMPTY
           then move_to w1 (x, y) (x - dir, y)
         else w1)
      else if type current = SAND then
        (let (r, w1) = GetRandomValue 0 1 w; dir = r * 2 - 1 in
         if IsValidPosition (x + dir) (y + 1) \<and> type (grid w1 (x + dir, y + 1)) = EMPTY
           then move_to w1 (x, y) (x + dir, y + 1)
         else if IsValidPosition (x - dir) (y + 1) \<and> type (grid w1 (x - dir, y + 1)) = EMPTY
           then move_to w1 (x, y) (x - dir, y + 1)
         else w1)
      else w)"

subsection \<open>UpdateTemperature\<close>

definition UpdateTemperature_body ::
  "'a cells \<Rightarrow> int \<Rightarrow> int \<Rightarrow> int \<Rightarrow> int \<Rightarrow> real \<times> int \<Rightarrow> real \<times> int" where
  "UpdateTemperature_body g x y dx dy acc =
     (case acc of (avgTemp, count) \<Rightarrow>
        if IsValidPosition (x + dx) (y + dy)
        then (avgTemp + temperature (g (x + dx, y + dy)), count + 1)
        else (avgTemp, count))"

definition UpdateTemperature :: "'a cells \<Rightarrow> int \<Rightarrow> int \<Rightarrow> 'a cells" where
  "UpdateTemperature g x y =
     (let current = g (x, y);
          (avgTemp, count) =
             for_neighbours (UpdateTemperature_body g x y) (temperature current, 1);
          avgTemp = avgTemp / real_of_int count;
          t = avgTemp * TEMPERATURE_SPREAD + temperature current * (1 - TEMPERATURE_SPREAD);
          t = (if t > 20 then t - COOLING_RATE
               else if t < 20 then t + COOLING_RATE else t)
      in g((x, y) := current\<lparr>temperature := t\<rparr>))"

subsection \<open>HandleParticleInteractions\<close>

definition set_type :: "'a world \<Rightarrow> pos \<Rightarrow> ParticleType \<Rightarrow> 'a world" where
  "set_type w p t = w\<lparr>grid := (grid w)(p := (grid w p)\<lparr>type := t\<rparr>)\<rparr>"

definition water_body :: "int \<Rightarrow> int \<Rightarrow> int \<Rightarrow> int \<Rightarrow> 'a world \<Rightarrow> 'a world" where
  "water_body x y dx dy w =
     (if IsValidPosition (x + dx) (y + dy) \<and> type (grid w (x + dx, y + dy)) = FIRE
      then set_type w (x + dx, y + dy) STEAM else w)"

definition fire_body :: "int \<Rightarrow> int \<Rightarrow> int \<Rightarrow> int \<Rightarrow> 'a world \<Rightarrow> 'a world" where
  "fire_body x y dx dy w =
     (if IsValidPosition (x + dx) (y + dy) then
        (let nearbyType = type (grid w (x + dx, y + dy)) in
         if flammable (particleProps nearbyType) then
           (let (r, w1) = GetRandomValue 0 100 w in
            if r < 10 then set_type w1 (x + dx, y + dy) FIRE else w1)
         else w)
      else w)"

definition fire_smoke :: "int \<Rightarrow> int \<Rightarrow> 'a world \<Rightarrow> 'a world" where
  "fire_smoke x y w =
     (let (r, w1) = GetRandomValue 0 100 w in
      if r < 5 then
        (if IsValidPosition x (y - 1) \<and> type (grid w1 (x, y - 1)) = EMPTY
         then set_type w1 (x, y - 1) SMOKE else w1)
      else w1)"

definition lava_body :: "int \<Rightarrow> int \<Rightarrow> int \<Rightarrow> int \<Rightarrow> 'a world \<Rightarrow> 'a world" where
  "lava_body x y dx dy w =
     (if IsValidPosition (x + dx) (y + dy) then
        (if type (grid w (x + dx, y + dy)) = WATER
         then set_type w (x + dx, y + dy) STEAM else w)
      else w)"

definition acid_body :: "int \<Rightarrow> int \<Rightarrow> int \<Rightarrow> int \<Rightarrow> 'a world \<Rightarrow> 'a world" where
  "acid_body x y dx dy w =
     (if IsValidPosition (x + dx) (y + dy) then
        (let nearbyType = type (grid w (x + dx, y + dy)) in
         if nearbyType \<noteq> EMPTY \<and> nearbyType \<noteq> ACID \<and> nearbyType \<noteq> GLASS then
           (let (r, w1) = GetRandomValue 0 100 w in
            if r < 20 then set_type w1 (x + dx, y + dy) EMPTY else w1)
         else w)
      else w)"

definition HandleParticleInteractions :: "'a world \<Rightarrow> int \<Rightarrow> int \<Rightarrow> 'a world" where
  "HandleParticleInteractions w x y =
     (case type (grid w (x, y)) of
        WATER \<Rightarrow>
          (let w1 = for_neighbours (water_body x y) w in
           if temperature (grid w1 (x, y)) < 0 then set_type w1 (x, y) ICE else w1)
      | FIRE \<Rightarrow> fire_smoke x y (for_neighbours (fire_body x y) w)
      | LAVA \<Rightarrow>
          (let w1 = for_neighbours (lava_body x y) w in
           if temperature (grid w1 (x, y)) < 800 then set_type w1 (x, y) METAL else w1)
      | ACID \<Rightarrow> for_neighbours (acid_body x y) w
      | _ \<Rightarrow> w)"

subsection \<open>ProcessChemicalReactions\<close>

definition salt_body :: "int \<Rightarrow> int \<Rightarrow> int \<Rightarrow> int \<Rightarrow> 'a cells \<Rightarrow> 'a cells" where
  "salt_body x y dx dy g =
     (if IsValidPosition (x + dx) (y + dy) \<and> type (g (x + dx, y + dy)) = SALT
      then (let g1 = g((x + dx, y + dy) := (g (x + dx, y + dy))\<lparr>type := EMPTY\<rparr>)
            in g1((x, y) := (g1 (x, y))\<lparr>color := SKYBLUE\<rparr>))
      else g)"

definition ProcessChemicalReactions :: "'a cells \<Rightarrow> int \<Rightarrow> int \<Rightarrow> 'a cells" where
  "ProcessChemicalReactions g x y =
     (let current = g (x, y) in
      if type current = SAND \<and> temperature current > 1700
        then g((x, y) := current\<lparr>type := GLASS\<rparr>)
      else if type current = WATER then for_neighbours (salt_body x y) g
      else g)"

subsection \<open>UpdateParticle and UpdateParticles\<close>

definition UpdateParticle :: "'a world \<Rightarrow> int \<Rightarrow> int \<Rightarrow> 'a world" where
  "UpdateParticle w x y =
     (if \<not> IsValidPosition x y \<or> updated (grid w (x, y)) then w
      else
        (let g1 = (grid w)((x, y) := (grid w (x, y))\<lparr>updated := True\<rparr>);
             current = g1 (x, y);
             stages = (\<lambda>g. let w2 = UpdatePhysics (w\<lparr>grid := g\<rparr>) x y;
                                w3 = w2\<lparr>grid := UpdateTemperature (grid w2) x y\<rparr>;
                                w4 = HandleParticleInteractions w3 x y
                            in w4\<lparr>grid := ProcessChemicalReactions (grid w4) x y\<rparr>)
         in if lifetime current > 0 then
              (let g2 = g1((x, y) := current\<lparr>lifetime := lifetime current - 1\<rparr>) in
               if lifetime (g2 (x, y)) \<le> 0
               then w\<lparr>grid := g2((x, y) := (g2 (x, y))\<lparr>type := EMPTY\<rparr>)\<rparr>
               else stages g2)
            else stages g1))"

definition reset_updated :: "'a cells \<Rightarrow> 'a cells" where
  "reset_updated g =
     fold (\<lambda>x. fold (\<lambda>y g. g((x, y) := (g (x, y))\<lparr>updated := False\<rparr>))
                 [0..GRID_HEIGHT - 1])
          [0..GRID_WIDTH - 1] g"

definition UpdateParticles :: "'a world \<Rightarrow> 'a world" where
  "UpdateParticles w =
     fold (\<lambda>y. fold (\<lambda>x w. UpdateParticle w x y) [0..GRID_WIDTH - 1])
          (rev [0..GRID_HEIGHT - 1])
          (w\<lparr>grid := reset_updated (grid w)\<rparr>)"

subsection \<open>SaveToFile and LoadFromFile\<close>

text \<open>
  A file is the sequence of records written to it; a record of \<^verbatim>\<open>sizeof(Particle)\<close> bytes,
  written from and read into the same struct, is the cell itself. The file system says
  which paths \<^verbatim>\<open>fopen(_, "wb")\<close> can open and, for a path \<^verbatim>\<open>fopen(_, "rb")\<close> can open,
  what the file holds. \<^verbatim>\<open>fread\<close> at the end of the file reads nothing and leaves its
  buffer as it was.
\<close>

record 'a filesystem =
  writable :: "string \<Rightarrow> bool"
  contents :: "string \<Rightarrow> 'a Particle_scheme list option"

definition SaveToFile :: "'a filesystem \<Rightarrow> 'a cells \<Rightarrow> string \<Rightarrow> 'a filesystem" where
  "SaveToFile fs g filename =
     (if writable fs filename then
        (let file = fold (\<lambda>x. fold (\<lambda>y file. file @ [g (x, y)]) [0..GRID_HEIGHT - 1])
                         [0..GRID_WIDTH - 1] []
         in fs\<lparr>contents := (contents fs)(filename \<mapsto> file)\<rparr>)
      else fs)"

definition fread :: "pos \<Rightarrow> 'a cells \<times> 'a Particle_scheme list \<Rightarrow> 'a cells \<times> 'a Particle_scheme list" where
  "fread p st =
     (case st of (g, file) \<Rightarrow>
        (case file of [] \<Rightarrow> (g, []) | c # rest \<Rightarrow> (g(p := c), rest)))"

definition LoadFromFile :: "'a filesystem \<Rightarrow> 'a cells \<Rightarrow> string \<Rightarrow> 'a cells" where
  "LoadFromFile fs g filename =
     (case contents fs filename of
        None \<Rightarrow> g
      | Some file \<Rightarrow>
          fst (fold (\<lambda>x. fold (\<lambda>y. fread (x, y)) [0..GRID_HEIGHT - 1])
                    [0..GRID_WIDTH - 1] (g, file)))"

section \<open>Concrete cells and grids\<close>

text \<open>The value of a \<^verbatim>\<open>Particle\<close> built from its default member initialisers, and a cell as
  \<^verbatim>\<open>PlaceParticles\<close> stamps it.\<close>

definition default_Particle :: Particle where
  "default_Particle =
     \<lparr>type = EMPTY, color = BLACK, updated = False, temperature = 20,
      velocity_y = 0, velocity_x = 0, lifetime = -1\<rparr>"

definition placed :: "ParticleType \<Rightarrow> Particle" where
  "placed t = PlaceParticles_cell t default_Particle"

definition empty_cells :: "unit cells" where
  "empty_cells = (\<lambda>p. default_Particle)"

text \<open>A Water cell at \<open>(5, 5)\<close> with Salt to its right and at its upper left.\<close>

definition salt_water_cells :: "unit cells" where
  "salt_water_cells =
     empty_cells((5, 5) := placed WATER, (6, 5) := placed SALT, (4, 4) := placed SALT)"

section \<open>Auxiliary lemmas\<close>

lemma GRID_WIDTH_eq: "GRID_WIDTH = 160"
  by (simp add: GRID_WIDTH_def SCREEN_WIDTH_def CELL_SIZE_def)

lemma GRID_HEIGHT_eq: "GRID_HEIGHT = 90"
  by (simp add: GRID_HEIGHT_def SCREEN_HEIGHT_def CELL_SIZE_def)

lemma upto_m1_1: "[-1..1] = [-1, 0, 1::int]"
  by code_simp

lemma fold_pres:
  assumes "P s" and "\<And>a s. P s \<Longrightarrow> P (f a s)"
  shows "P (fold f xs s)"
  using assms(1) by (induction xs arbitrary: s) (simp_all add: assms(2))

lemma for_neighbours_pres:
  assumes "P s" and "\<And>dx dy s. P s \<Longrightarrow> P (body dx dy s)"
  shows "P (for_neighbours body s)"
  unfolding for_neighbours_def
proof (rule fold_pres [where P = P])
  show "P s" by (rule assms(1))
next
  fix a s assume "P s"
  then show "P (fold (body a) [- 1..1] s)"
    by (rule fold_pres [where P = P]) (rule assms(2))
qed

definition only_type :: "'a cells \<Rightarrow> 'a cells \<Rightarrow> bool" where
  "only_type g g' \<longleftrightarrow> (\<forall>p. (g' p)\<lparr>type := EMPTY\<rparr> = (g p)\<lparr>type := EMPTY\<rparr>)"

lemma only_type_refl: "only_type g g"
  by (simp add: only_type_def)

lemma only_type_set_type:
  "only_type g (grid w) \<Longrightarrow> only_type g (grid (set_type w p t))"
  by (auto simp: only_type_def set_type_def)

lemma grid_GetRandomValue: "grid (snd (GetRandomValue lo hi w)) = grid w"
  by (simp add: GetRandomValue_def)

lemma only_type_water_body:
  "only_type g (grid w) \<Longrightarrow> only_type g (grid (water_body x y dx dy w))"
  by (simp add: water_body_def only_type_set_type)

lemma only_type_lava_body:
  "only_type g (grid w) \<Longrightarrow> only_type g (grid (lava_body x y dx dy w))"
  by (simp add: lava_body_def only_type_set_type)

lemma only_type_fire_body:
  "only_type g (grid w) \<Longrightarrow> only_type g (grid (fire_body x y dx dy w))"
  by (simp add: fire_body_def only_type_set_type Let_def GetRandomValue_def split: prod.splits)

lemma only_type_acid_body:
  "only_type g (grid w) \<Longrightarrow> only_type g (grid (acid_body x y dx dy w))"
  by (simp add: acid_body_def only_type_set_type Let_def GetRandomValue_def split: prod.splits)

lemma only_type_fire_smoke:
  "only_type g (grid w) \<Longrightarrow> only_type g (grid (fire_smoke x y w))"
  by (simp add: fire_smoke_def only_type_set_type Let_def GetRandomValue_def split: prod.splits)

lemma only_type_HandleParticleInteractions:
  "only_type (grid w) (grid (HandleParticleInteractions w x y))"
proof -
  have w: "only_type (grid w) (grid (for_neighbours (water_body x y) w))"
    by (rule for_neighbours_pres [where P = "\<lambda>s. only_type (grid w) (grid s)"])
       (simp_all add: only_type_refl only_type_water_body)
  have f: "only_type (grid w) (grid (for_neighbours (fire_body x y) w))"
    by (rule for_neighbours_pres [where P = "\<lambda>s. only_type (grid w) (grid s)"])
       (simp_all add: only_type_refl only_type_fire_body)
  have l: "only_type (grid w) (grid (for_neighbours (lava_body x y) w))"
    by (rule for_neighbours_pres [where P = "\<lambda>s. only_type (grid w) (grid s)"])
       (simp_all add: only_type_refl only_type_lava_body)
  have a: "only_type (grid w) (grid (for_neighbours (acid_body x y) w))"
    by (rule for_neighbours_pres [where P = "\<lambda>s. only_type (grid w) (grid s)"])
       (simp_all add: only_type_refl only_type_acid_body)
  show ?thesis
    unfolding HandleParticleInteractions_def
    by (cases "type (grid w (x, y))")
       (simp_all add: only_type_refl w f l a Let_def only_type_set_type only_type_fire_smoke)
qed

definition offsets :: "(int \<times> int) list" where
  "offsets = [(-1, -1), (-1, 0), (-1, 1), (0, -1), (0, 0), (0, 1), (1, -1), (1, 0), (1, 1)]"

lemma for_neighbours_flat:
  "for_neighbours body s = fold (\<lambda>(dx, dy). body dx dy) offsets s"
  by (simp add: for_neighbours_def upto_m1_1 offsets_def)

definition salt_neighbours :: "'a cells \<Rightarrow> int \<Rightarrow> int \<Rightarrow> (int \<times> int) list \<Rightarrow> pos list" where
  "salt_neighbours g x y os =
     filter (\<lambda>p. IsValidPosition (fst p) (snd p) \<and> type (g p) = SALT)
            (map (\<lambda>(dx, dy). (x + dx, y + dy)) os)"

lemma salt_fold:
  "type (g (x, y)) = WATER \<Longrightarrow>
   fold (\<lambda>(dx, dy). salt_body x y dx dy) os g =
     (\<lambda>p. if p \<in> set (salt_neighbours g x y os) then (g p)\<lparr>type := EMPTY\<rparr>
          else if p = (x, y) \<and> salt_neighbours g x y os \<noteq> [] then (g p)\<lparr>color := SKYBLUE\<rparr>
          else g p)"
proof (induction os arbitrary: g)
  case Nil
  then show ?case by (simp add: salt_neighbours_def)
next
  case (Cons o1 os)
  have step: "fold (\<lambda>(dx, dy). salt_body x y dx dy) ((dx, dy) # os) g =
     (\<lambda>p. if p \<in> set (salt_neighbours g x y ((dx, dy) # os)) then (g p)\<lparr>type := EMPTY\<rparr>
          else if p = (x, y) \<and> salt_neighbours g x y ((dx, dy) # os) \<noteq> [] then (g p)\<lparr>color := SKYBLUE\<rparr>
          else g p)" for dx dy
  proof (cases "IsValidPosition (x + dx) (y + dy) \<and> type (g (x + dx, y + dy)) = SALT")
    case False
    then have g1: "(salt_body x y dx dy g) = g" by (auto simp: salt_body_def)
    have sn: "salt_neighbours g x y ((dx, dy) # os) = salt_neighbours g x y os"
      using False by (auto simp: salt_neighbours_def)
    show ?thesis
      using Cons.IH [of g] Cons.prems by (simp add: g1 sn cong: if_cong)
  next
    case True
    then have neq: "(x + dx, y + dy) \<noteq> (x, y)" using Cons.prems by auto
    have g1: "(salt_body x y dx dy g) = g((x + dx, y + dy) := (g (x + dx, y + dy))\<lparr>type := EMPTY\<rparr>, (x, y) := (g (x, y))\<lparr>color := SKYBLUE\<rparr>)"
      using True neq by (auto simp: salt_body_def Let_def)
    have w1: "type ((salt_body x y dx dy g) (x, y)) = WATER"
      using Cons.prems neq by (simp add: g1)
    have sn1: "set (salt_neighbours (salt_body x y dx dy g) x y os) = set (salt_neighbours g x y os) - {(x + dx, y + dy)}"
      using neq Cons.prems unfolding g1 salt_neighbours_def by auto
    have sn: "set (salt_neighbours g x y ((dx, dy) # os)) = insert (x + dx, y + dy) (set (salt_neighbours g x y os))"
      using True by (auto simp: salt_neighbours_def)
    have ne: "salt_neighbours g x y ((dx, dy) # os) \<noteq> []"
      using sn by auto
    have xy: "(x, y) \<notin> set (salt_neighbours g x y os)"
      using Cons.prems by (auto simp: salt_neighbours_def)
    have "fold (\<lambda>(dx, dy). salt_body x y dx dy) ((dx, dy) # os) g
          = fold (\<lambda>(dx, dy). salt_body x y dx dy) os (salt_body x y dx dy g)"
      by simp
    also have "\<dots> = (\<lambda>p. if p \<in> set (salt_neighbours (salt_body x y dx dy g) x y os) then ((salt_body x y dx dy g) p)\<lparr>type := EMPTY\<rparr>
          else if p = (x, y) \<and> salt_neighbours (salt_body x y dx dy g) x y os \<noteq> [] then ((salt_body x y dx dy g) p)\<lparr>color := SKYBLUE\<rparr>
          else (salt_body x y dx dy g) p)"
      using Cons.IH [of "salt_body x y dx dy g"] w1 by blast
    also have "\<dots> = (\<lambda>p. if p \<in> set (salt_neighbours g x y ((dx, dy) # os)) then (g p)\<lparr>type := EMPTY\<rparr>
          else if p = (x, y) \<and> salt_neighbours g x y ((dx, dy) # os) \<noteq> [] then (g p)\<lparr>color := SKYBLUE\<rparr>
          else g p)"
    proof (rule ext)
      fix p
      show "(if p \<in> set (salt_neighbours (salt_body x y dx dy g) x y os) then ((salt_body x y dx dy g) p)\<lparr>type := EMPTY\<rparr>
          else if p = (x, y) \<and> salt_neighbours (salt_body x y dx dy g) x y os \<noteq> [] then ((salt_body x y dx dy g) p)\<lparr>color := SKYBLUE\<rparr>
          else (salt_body x y dx dy g) p) = (if p \<in> set (salt_neighbours g x y ((dx, dy) # os)) then (g p)\<lparr>type := EMPTY\<rparr>
          else if p = (x, y) \<and> salt_neighbours g x y ((dx, dy) # os) \<noteq> [] then (g p)\<lparr>color := SKYBLUE\<rparr>
          else g p)"
        unfolding sn1 sn using ne xy neq
        by (cases "p = (x + dx, y + dy)"; cases "p = (x, y)") (auto simp: g1)
    qed
    finally show ?thesis .
  qed
  show ?case by (cases o1) (simp only: step)
qed


lemma ProcessChemicalReactions_water:
  assumes "type (g (x, y)) = WATER"
  shows "ProcessChemicalReactions g x y =
     (\<lambda>p. if p \<in> set (salt_neighbours g x y offsets) then (g p)\<lparr>type := EMPTY\<rparr>
          else if p = (x, y) \<and> salt_neighbours g x y offsets \<noteq> [] then (g p)\<lparr>color := SKYBLUE\<rparr>
          else g p)"
proof -
  have "ProcessChemicalReactions g x y = fold (\<lambda>(dx, dy). salt_body x y dx dy) offsets g"
    using assms by (simp add: ProcessChemicalReactions_def for_neighbours_flat Let_def)
  then show ?thesis using salt_fold [of g x y offsets] assms by simp
qed


lemma ProcessChemicalReactions_frame:
  "(ProcessChemicalReactions g x y p)\<lparr>type := EMPTY, color := BLACK\<rparr> = (g p)\<lparr>type := EMPTY, color := BLACK\<rparr>"
proof (cases "type (g (x, y)) = WATER")
  case True
  show ?thesis by (simp add: ProcessChemicalReactions_water [of g x y, OF True])
next
  case False
  then show ?thesis by (simp add: ProcessChemicalReactions_def Let_def)
qed

lemma ProcessChemicalReactions_color:
  "color (ProcessChemicalReactions g x y p) = color (g p)
   \<or> (p = (x, y) \<and> type (g (x, y)) = WATER \<and> color (ProcessChemicalReactions g x y p) = SKYBLUE)"
proof (cases "type (g (x, y)) = WATER")
  case True
  show ?thesis by (simp add: ProcessChemicalReactions_water [of g x y, OF True] True)
next
  case False
  then show ?thesis by (simp add: ProcessChemicalReactions_def Let_def)
qed

lemma only_typeD:
  assumes "only_type g g'"
  shows "temperature (g' p) = temperature (g p)" "lifetime (g' p) = lifetime (g p)"
    "velocity_x (g' p) = velocity_x (g p)" "velocity_y (g' p) = velocity_y (g p)"
    "updated (g' p) = updated (g p)" "color (g' p) = color (g p)"
    "Particle.more (g' p) = Particle.more (g p)"
proof -
  have e: "(g' p)\<lparr>type := EMPTY\<rparr> = (g p)\<lparr>type := EMPTY\<rparr>"
    using assms unfolding only_type_def by blast
  show "temperature (g' p) = temperature (g p)" using arg_cong [OF e, of temperature] by simp
  show "lifetime (g' p) = lifetime (g p)" using arg_cong [OF e, of lifetime] by simp
  show "velocity_x (g' p) = velocity_x (g p)" using arg_cong [OF e, of velocity_x] by simp
  show "velocity_y (g' p) = velocity_y (g p)" using arg_cong [OF e, of velocity_y] by simp
  show "updated (g' p) = updated (g p)" using arg_cong [OF e, of updated] by simp
  show "color (g' p) = color (g p)" using arg_cong [OF e, of color] by simp
  show "Particle.more (g' p) = Particle.more (g p)" using arg_cong [OF e, of Particle.more] by simp
qed

lemma ProcessChemicalReactions_fields:
  shows "temperature (ProcessChemicalReactions g x y p) = temperature (g p)"
    "lifetime (ProcessChemicalReactions g x y p) = lifetime (g p)"
    "velocity_x (ProcessChemicalReactions g x y p) = velocity_x (g p)"
    "velocity_y (ProcessChemicalReactions g x y p) = velocity_y (g p)"
    "updated (ProcessChemicalReactions g x y p) = updated (g p)"
    "Particle.more (ProcessChemicalReactions g x y p) = Particle.more (g p)"
proof -
  note e = ProcessChemicalReactions_frame [of g x y p]
  show "temperature (ProcessChemicalReactions g x y p) = temperature (g p)"
    using arg_cong [OF e, of temperature] by simp
  show "lifetime (ProcessChemicalReactions g x y p) = lifetime (g p)"
    using arg_cong [OF e, of lifetime] by simp
  show "velocity_x (ProcessChemicalReactions g x y p) = velocity_x (g p)"
    using arg_cong [OF e, of velocity_x] by simp
  show "velocity_y (ProcessChemicalReactions g x y p) = velocity_y (g p)"
    using arg_cong [OF e, of velocity_y] by simp
  show "updated (ProcessChemicalReactions g x y p) = updated (g p)"
    using arg_cong [OF e, of updated] by simp
  show "Particle.more (ProcessChemicalReactions g x y p) = Particle.more (g p)"
    using arg_cong [OF e, of Particle.more] by simp
qed

lemma valid_iff: "IsValidPosition x y \<longleftrightarrow> 0 \<le> x \<and> x < 160 \<and> 0 \<le> y \<and> y < 90"
  by (simp add: IsValidPosition_def GRID_WIDTH_eq GRID_HEIGHT_eq)

lemma UpdateTemperature_upd:
  "\<exists>t. UpdateTemperature g x y = g((x, y) := (g (x, y))\<lparr>temperature := t\<rparr>)"
proof -
  obtain a c where ac: "for_neighbours (UpdateTemperature_body g x y) (temperature (g (x, y)), 1) = (a, c)"
    by (cases "for_neighbours (UpdateTemperature_body g x y) (temperature (g (x, y)), 1)")
  show ?thesis
    unfolding UpdateTemperature_def Let_def ac prod.case by (rule exI) (rule refl)
qed

lemma UpdatePhysics_immovable:
  "\<not> movable (particleProps (type (grid w (x, y)))) \<Longrightarrow> UpdatePhysics w x y = w"
  by (simp add: UpdatePhysics_def Let_def)

lemma HandleParticleInteractions_inert:
  "type (grid w (x, y)) \<notin> {WATER, FIRE, LAVA, ACID} \<Longrightarrow> HandleParticleInteractions w x y = w"
  by (cases "type (grid w (x, y))") (simp_all add: HandleParticleInteractions_def)

lemma ProcessChemicalReactions_inert:
  "type (g (x, y)) \<notin> {SAND, WATER} \<Longrightarrow> ProcessChemicalReactions g x y = g"
  by (simp add: ProcessChemicalReactions_def Let_def)

definition inert :: "ParticleType \<Rightarrow> bool" where
  "inert t \<longleftrightarrow> t = EMPTY \<or> t = WALL"

lemma inert_stages:
  assumes "inert (type (g (x, y)))"
  shows "\<exists>t. (let w2 = UpdatePhysics (w\<lparr>grid := g\<rparr>) x y;
                  w3 = w2\<lparr>grid := UpdateTemperature (grid w2) x y\<rparr>;
                  w4 = HandleParticleInteractions w3 x y
              in w4\<lparr>grid := ProcessChemicalReactions (grid w4) x y\<rparr>)
             = w\<lparr>grid := g((x, y) := (g (x, y))\<lparr>temperature := t\<rparr>)\<rparr>"
proof -
  have nm: "\<not> movable (particleProps (type (g (x, y))))"
    using assms by (auto simp: inert_def props_def)
  have p: "UpdatePhysics (w\<lparr>grid := g\<rparr>) x y = w\<lparr>grid := g\<rparr>"
    by (rule UpdatePhysics_immovable) (simp add: nm)
  obtain t where t: "UpdateTemperature g x y = g((x, y) := (g (x, y))\<lparr>temperature := t\<rparr>)"
    using UpdateTemperature_upd by blast
  let ?g3 = "g((x, y) := (g (x, y))\<lparr>temperature := t\<rparr>)"
  have ty: "type (?g3 (x, y)) = type (g (x, y))" by simp
  have h: "HandleParticleInteractions (w\<lparr>grid := ?g3\<rparr>) x y = w\<lparr>grid := ?g3\<rparr>"
    by (rule HandleParticleInteractions_inert) (use assms in \<open>auto simp: inert_def\<close>)
  have c: "ProcessChemicalReactions ?g3 x y = ?g3"
    by (rule ProcessChemicalReactions_inert) (use assms in \<open>auto simp: inert_def\<close>)
  show ?thesis
    by (rule exI [of _ t]) (simp add: p t h c Let_def)
qed

lemma UpdateParticle_inert:
  assumes "inert (type (grid w (x, y)))"
  shows "\<exists>c. UpdateParticle w x y = w\<lparr>grid := (grid w)((x, y) := c)\<rparr>
           \<and> inert (type c) \<and> (type (grid w (x, y)) = EMPTY \<longrightarrow> type c = EMPTY)"
proof (cases "\<not> IsValidPosition x y \<or> updated (grid w (x, y))")
  case True
  then have "UpdateParticle w x y = w" by (simp add: UpdateParticle_def)
  then show ?thesis using assms by (intro exI [of _ "grid w (x, y)"]) simp
next
  case False
  let ?g1 = "(grid w)((x, y) := (grid w (x, y))\<lparr>updated := True\<rparr>)"
  let ?g2 = "?g1((x, y) := (?g1 (x, y))\<lparr>lifetime := lifetime (?g1 (x, y)) - 1\<rparr>)"
  have i1: "inert (type (?g1 (x, y)))" using assms by simp
  have i2: "inert (type (?g2 (x, y)))" using assms by simp
  from inert_stages [of ?g1 x y w] i1 obtain t1 where t1:
    "(let w2 = UpdatePhysics (w\<lparr>grid := ?g1\<rparr>) x y;
                  w3 = w2\<lparr>grid := UpdateTemperature (grid w2) x y\<rparr>;
                  w4 = HandleParticleInteractions w3 x y
              in w4\<lparr>grid := ProcessChemicalReactions (grid w4) x y\<rparr>)
             = w\<lparr>grid := ?g1((x, y) := (?g1 (x, y))\<lparr>temperature := t1\<rparr>)\<rparr>" by blast
  from inert_stages [of ?g2 x y w] i2 obtain t2 where t2:
    "(let w2 = UpdatePhysics (w\<lparr>grid := ?g2\<rparr>) x y;
                  w3 = w2\<lparr>grid := UpdateTemperature (grid w2) x y\<rparr>;
                  w4 = HandleParticleInteractions w3 x y
              in w4\<lparr>grid := ProcessChemicalReactions (grid w4) x y\<rparr>)
             = w\<lparr>grid := ?g2((x, y) := (?g2 (x, y))\<lparr>temperature := t2\<rparr>)\<rparr>" by blast
  consider (a) "lifetime (grid w (x, y)) > 1" | (b) "lifetime (grid w (x, y)) = 1"
    | (c) "lifetime (grid w (x, y)) \<le> 0" by linarith
  then show ?thesis
  proof cases
    case a
    have "UpdateParticle w x y = w\<lparr>grid := ?g2((x, y) := (?g2 (x, y))\<lparr>temperature := t2\<rparr>)\<rparr>"
      using False a t2 unfolding UpdateParticle_def by (simp add: Let_def)
    then show ?thesis using assms
      by (intro exI [of _ "(?g2 (x, y))\<lparr>temperature := t2\<rparr>"]) simp
  next
    case b
    have "UpdateParticle w x y = w\<lparr>grid := ?g2((x, y) := (?g2 (x, y))\<lparr>type := EMPTY\<rparr>)\<rparr>"
      using False b unfolding UpdateParticle_def by (simp add: Let_def)
    then show ?thesis
      by (intro exI [of _ "(?g2 (x, y))\<lparr>type := EMPTY\<rparr>"]) (simp add: inert_def)
  next
    case c
    have "UpdateParticle w x y = w\<lparr>grid := ?g1((x, y) := (?g1 (x, y))\<lparr>temperature := t1\<rparr>)\<rparr>"
      using False c t1 unfolding UpdateParticle_def by (simp add: Let_def)
    then show ?thesis using assms
      by (intro exI [of _ "(?g1 (x, y))\<lparr>temperature := t1\<rparr>"]) simp
  qed
qed

subsection \<open>Files\<close>

lemma fold_nested_flat:
  "fold (\<lambda>a. fold (f a) ys) xs s = fold (\<lambda>(a, b). f a b) (List.product xs ys) s"
  by (induction xs arbitrary: s) (simp_all add: fold_map comp_def)

definition storage_order :: "pos list" where
  "storage_order = List.product [0..GRID_WIDTH - 1] [0..GRID_HEIGHT - 1]"

lemma set_storage_order: "p \<in> set storage_order \<longleftrightarrow> IsValidPosition (fst p) (snd p)"
  by (cases p) (auto simp: storage_order_def IsValidPosition_def)

lemma fold_fwrite:
  "fold (\<lambda>(x, y) file. file @ [g (x, y)]) ps acc = acc @ map g ps"
  by (induction ps arbitrary: acc) auto

lemma fold_fread:
  "fold (\<lambda>(x, y). fread (x, y)) ps (g1, map g ps @ rest)
     = ((\<lambda>p. if p \<in> set ps then g p else g1 p), rest)"
proof (induction ps arbitrary: g1)
  case Nil
  show ?case by simp
next
  case (Cons p ps)
  have "fold (\<lambda>(x, y). fread (x, y)) (p # ps) (g1, map g (p # ps) @ rest)
        = fold (\<lambda>(x, y). fread (x, y)) ps (g1(p := g p), map g ps @ rest)"
    by (cases p) (simp add: fread_def)
  also have "\<dots> = ((\<lambda>q. if q \<in> set ps then g q else (g1(p := g p)) q), rest)"
    by (rule Cons.IH)
  also have "(\<lambda>q. if q \<in> set ps then g q else (g1(p := g p)) q)
             = (\<lambda>q. if q \<in> set (p # ps) then g q else g1 q)"
    by (rule ext) simp
  finally show ?case .
qed

lemma SaveToFile_contents:
  "writable fs filename \<Longrightarrow>
   contents (SaveToFile fs g filename) filename = Some (map g storage_order)"
  by (simp add: SaveToFile_def fold_nested_flat fold_fwrite storage_order_def)

lemma LoadFromFile_all:
  "contents fs filename = Some (map g storage_order) \<Longrightarrow>
   LoadFromFile fs g1 filename = (\<lambda>p. if IsValidPosition (fst p) (snd p) then g p else g1 p)"
  using fold_fread [where ps = storage_order and rest = "[]" and g = g and ?g1.0 = g1]
  by (simp add: LoadFromFile_def fold_nested_flat storage_order_def [symmetric] set_storage_order)

subsection \<open>The brush\<close>

lemma PlaceParticles_cell_idem:
  "PlaceParticles_cell t (PlaceParticles_cell t c) = PlaceParticles_cell t c"
  by (simp add: PlaceParticles_cell_def)

definition in_brush :: "int \<Rightarrow> int \<Rightarrow> int \<Rightarrow> (int \<times> int) list \<Rightarrow> pos \<Rightarrow> bool" where
  "in_brush brushSize x y os p \<longleftrightarrow>
     (\<exists>(dx, dy) \<in> set os. p = (x + dx, y + dy) \<and> IsValidPosition (x + dx) (y + dy)
        \<and> sqrt (real_of_int (dx * dx + dy * dy)) \<le> real_of_int brushSize)"

lemma fold_paint:
  "fold (\<lambda>(dx, dy). PlaceParticles_body r x y t dx dy) os g =
     (\<lambda>p. if in_brush r x y os p then PlaceParticles_cell t (g p) else g p)"
proof (induction os arbitrary: g)
  case Nil
  show ?case by (simp add: in_brush_def)
next
  case (Cons o1 os)
  obtain dx dy where o1: "o1 = (dx, dy)" by (cases o1)
  let ?c = "IsValidPosition (x + dx) (y + dy)
        \<and> sqrt (real_of_int (dx * dx + dy * dy)) \<le> real_of_int r"
  let ?g1 = "PlaceParticles_body r x y t dx dy g"
  have g1: "?g1 = (if ?c then g((x + dx, y + dy) := PlaceParticles_cell t (g (x + dx, y + dy))) else g)"
    by (simp add: PlaceParticles_body_def Let_def)
  have ib: "in_brush r x y (o1 # os) p \<longleftrightarrow> (p = (x + dx, y + dy) \<and> ?c) \<or> in_brush r x y os p" for p
    by (auto simp: in_brush_def o1)
  have "fold (\<lambda>(dx, dy). PlaceParticles_body r x y t dx dy) (o1 # os) g
        = fold (\<lambda>(dx, dy). PlaceParticles_body r x y t dx dy) os ?g1"
    by (simp add: o1)
  also have "\<dots> = (\<lambda>p. if in_brush r x y os p then PlaceParticles_cell t (?g1 p) else ?g1 p)"
    by (rule Cons.IH)
  also have "\<dots> = (\<lambda>p. if in_brush r x y (o1 # os) p then PlaceParticles_cell t (g p) else g p)"
    by (rule ext) (simp add: ib g1 PlaceParticles_cell_idem)
  finally show ?case .
qed

lemma abs_le_sqrt_sum:
  "\<bar>real_of_int a\<bar> \<le> sqrt (real_of_int (a * a + b * b))"
proof -
  have "\<bar>real_of_int a\<bar> = sqrt ((real_of_int a)\<^sup>2)" by simp
  also have "\<dots> \<le> sqrt ((real_of_int a)\<^sup>2 + (real_of_int b)\<^sup>2)"
    by (rule real_sqrt_le_mono) simp
  also have "(real_of_int a)\<^sup>2 + (real_of_int b)\<^sup>2 = real_of_int (a * a + b * b)"
    by (simp add: power2_eq_square)
  finally show ?thesis .
qed

lemma within_brush_bounds:
  assumes "sqrt (real_of_int (dx * dx + dy * dy)) \<le> real_of_int r"
  shows "- r \<le> dx \<and> dx \<le> r \<and> - r \<le> dy \<and> dy \<le> r"
proof -
  have "\<bar>real_of_int dx\<bar> \<le> real_of_int r"
    using abs_le_sqrt_sum [of dx dy] assms by linarith
  moreover have "\<bar>real_of_int dy\<bar> \<le> real_of_int r"
    using abs_le_sqrt_sum [of dy dx] assms by (simp add: add.commute)
  ultimately show ?thesis by linarith
qed

lemma in_brush_square:
  "in_brush r x y (List.product [- r..r] [- r..r]) p \<longleftrightarrow>
     IsValidPosition (fst p) (snd p)
     \<and> sqrt (real_of_int ((fst p - x) * (fst p - x) + (snd p - y) * (snd p - y))) \<le> real_of_int r"
proof
  assume "in_brush r x y (List.product [- r..r] [- r..r]) p"
  then show "IsValidPosition (fst p) (snd p)
     \<and> sqrt (real_of_int ((fst p - x) * (fst p - x) + (snd p - y) * (snd p - y))) \<le> real_of_int r"
    by (auto simp: in_brush_def)
next
  assume a: "IsValidPosition (fst p) (snd p)
     \<and> sqrt (real_of_int ((fst p - x) * (fst p - x) + (snd p - y) * (snd p - y))) \<le> real_of_int r"
  then have b: "- r \<le> fst p - x \<and> fst p - x \<le> r \<and> - r \<le> snd p - y \<and> snd p - y \<le> r"
    using within_brush_bounds by blast
  then have "(fst p - x, snd p - y) \<in> set (List.product [- r..r] [- r..r])" by simp
  moreover have "p = (x + (fst p - x), y + (snd p - y))" by simp
  ultimately show "in_brush r x y (List.product [- r..r] [- r..r]) p"
    unfolding in_brush_def using a by (intro bexI [of _ "(fst p - x, snd p - y)"]) simp_all
qed

subsection \<open>The tick\<close>

definition scan_order :: "pos list" where
  "scan_order =
     concat (map (\<lambda>y. map (\<lambda>x. (x, y)) [0..GRID_WIDTH - 1]) (rev [0..GRID_HEIGHT - 1]))"

lemma fold_rows_flat:
  "fold (\<lambda>y. fold (\<lambda>x. f x y) xs) ys s
     = fold (\<lambda>(x, y). f x y) (concat (map (\<lambda>y. map (\<lambda>x. (x, y)) xs) ys)) s"
  by (induction ys arbitrary: s) (simp_all add: fold_map comp_def)

lemma UpdateParticles_scan:
  "UpdateParticles w
     = fold (\<lambda>(x, y) w. UpdateParticle w x y) scan_order (w\<lparr>grid := reset_updated (grid w)\<rparr>)"
  unfolding UpdateParticles_def scan_order_def
  by (rule fold_rows_flat [where f = "\<lambda>x y w. UpdateParticle w x y"])

lemma fold_cell_update:
  assumes "\<And>p c. f p (f p c) = f p c"
  shows "fold (\<lambda>(x, y) g. g((x, y) := f (x, y) (g (x, y)))) ps g
           = (\<lambda>p. if p \<in> set ps then f p (g p) else g p)"
proof (induction ps arbitrary: g)
  case Nil
  show ?case by simp
next
  case (Cons q ps)
  have "fold (\<lambda>(x, y) g. g((x, y) := f (x, y) (g (x, y)))) (q # ps) g
        = fold (\<lambda>(x, y) g. g((x, y) := f (x, y) (g (x, y)))) ps (g(q := f q (g q)))"
    by (cases q) simp
  also have "\<dots> = (\<lambda>p. if p \<in> set ps then f p ((g(q := f q (g q))) p) else (g(q := f q (g q))) p)"
    by (rule Cons.IH)
  also have "\<dots> = (\<lambda>p. if p \<in> set (q # ps) then f p (g p) else g p)"
    by (rule ext) (simp add: assms)
  finally show ?case .
qed

lemma reset_updated_eq:
  "reset_updated g
     = (\<lambda>p. if IsValidPosition (fst p) (snd p) then (g p)\<lparr>updated := False\<rparr> else g p)"
proof -
  have "reset_updated g
        = fold (\<lambda>(x, y) g. g((x, y) := (g (x, y))\<lparr>updated := False\<rparr>)) storage_order g"
    by (simp add: reset_updated_def fold_nested_flat storage_order_def)
  also have "\<dots> = (\<lambda>p. if p \<in> set storage_order then (g p)\<lparr>updated := False\<rparr> else g p)"
    by (rule fold_cell_update [where f = "\<lambda>p c. c\<lparr>updated := False\<rparr>"]) simp
  finally show ?thesis by (simp add: set_storage_order)
qed

lemma InitializeGrid_eq:
  "InitializeGrid g
     = (\<lambda>p. if IsValidPosition (fst p) (snd p) then InitializeGrid_cell (fst p) (snd p) (g p)
            else g p)"
proof -
  have "InitializeGrid g
        = fold (\<lambda>(x, y) g. g((x, y) := InitializeGrid_cell x y (g (x, y)))) storage_order g"
    by (simp add: InitializeGrid_def fold_nested_flat storage_order_def)
  also have "\<dots> = (\<lambda>p. if p \<in> set storage_order
                          then InitializeGrid_cell (fst p) (snd p) (g p) else g p)"
    using fold_cell_update [where f = "\<lambda>p c. InitializeGrid_cell (fst p) (snd p) c"
        and ps = storage_order and g = g]
    by (simp add: InitializeGrid_cell_def Let_def)
  finally show ?thesis by (simp add: set_storage_order)
qed

lemma fold_inert:
  assumes "\<forall>p \<in> set ps. inert (type (grid w p))"
  shows "rnd (fold (\<lambda>(x, y) w. UpdateParticle w x y) ps w) = rnd w
       \<and> (\<forall>p. p \<notin> set ps \<longrightarrow> grid (fold (\<lambda>(x, y) w. UpdateParticle w x y) ps w) p = grid w p)
       \<and> (\<forall>p. inert (type (grid w p))
              \<longrightarrow> inert (type (grid (fold (\<lambda>(x, y) w. UpdateParticle w x y) ps w) p)))
       \<and> (\<forall>p. type (grid w p) = EMPTY
              \<longrightarrow> type (grid (fold (\<lambda>(x, y) w. UpdateParticle w x y) ps w) p) = EMPTY)"
  using assms
proof (induction ps arbitrary: w)
  case Nil
  show ?case by simp
next
  case (Cons q ps)
  obtain x y where q: "q = (x, y)" by (cases q)
  have iq: "inert (type (grid w (x, y)))" using Cons.prems by (simp add: q)
  from UpdateParticle_inert [OF iq] obtain c where
    c: "UpdateParticle w x y = w\<lparr>grid := (grid w)((x, y) := c)\<rparr>"
    and ic: "inert (type c)"
    and ec: "type (grid w (x, y)) = EMPTY \<longrightarrow> type c = EMPTY" by blast
  let ?w1 = "w\<lparr>grid := (grid w)((x, y) := c)\<rparr>"
  have pre: "\<forall>p \<in> set ps. inert (type (grid ?w1 p))"
    using Cons.prems ic by simp
  note ih = Cons.IH [OF pre]
  have f: "fold (\<lambda>(x, y) w. UpdateParticle w x y) (q # ps) w
           = fold (\<lambda>(x, y) w. UpdateParticle w x y) ps ?w1"
    by (simp add: q c)
  let ?w' = "fold (\<lambda>(x, y) w. UpdateParticle w x y) ps ?w1"
  have "rnd ?w' = rnd ?w1" using ih by blast
  then have 1: "rnd ?w' = rnd w" by simp
  have 2: "grid ?w' p = grid w p" if "p \<notin> set (q # ps)" for p
  proof -
    have "p \<notin> set ps" using that by simp
    then have "grid ?w' p = grid ?w1 p" using ih by blast
    moreover have "grid ?w1 p = grid w p" using that by (simp add: q)
    ultimately show ?thesis by simp
  qed
  have 3: "inert (type (grid ?w' p))" if "inert (type (grid w p))" for p
  proof -
    have "inert (type (grid ?w1 p))" using that ic by auto
    then show ?thesis using ih by blast
  qed
  have 4: "type (grid ?w' p) = EMPTY" if "type (grid w p) = EMPTY" for p
  proof -
    have "type (grid ?w1 p) = EMPTY" using that ec by auto
    then show ?thesis using ih by blast
  qed
  show ?case unfolding f using 1 2 3 4 by blast
qed

lemma UpdatePhysics_fall:
  assumes "movable (particleProps (type (g (x, y))))" and "y < GRID_HEIGHT - 1"
    and "type (g (x, y + 1)) = EMPTY"
  shows "UpdatePhysics (w\<lparr>grid := g\<rparr>) x y
           = w\<lparr>grid := g((x, y + 1) := g (x, y),
                          (x, y) := (g (x, y + 1))\<lparr>velocity_x := 0, velocity_y := 0\<rparr>)\<rparr>"
  using assms
  by (simp add: UpdatePhysics_def Let_def move_to_def reset_velocity_def swap_cells_def)

lemma sand_stages:
  assumes "type (g (x, y)) = SAND" and "y < GRID_HEIGHT - 1" and "type (g (x, y + 1)) = EMPTY"
  shows "\<exists>c. (let w2 = UpdatePhysics (w\<lparr>grid := g\<rparr>) x y;
                  w3 = w2\<lparr>grid := UpdateTemperature (grid w2) x y\<rparr>;
                  w4 = HandleParticleInteractions w3 x y
              in w4\<lparr>grid := ProcessChemicalReactions (grid w4) x y\<rparr>)
             = w\<lparr>grid := g((x, y + 1) := g (x, y), (x, y) := c)\<rparr> \<and> type c = EMPTY"
proof -
  let ?g2 = "g((x, y + 1) := g (x, y),
               (x, y) := (g (x, y + 1))\<lparr>velocity_x := 0, velocity_y := 0\<rparr>)"
  have mv: "movable (particleProps (type (g (x, y))))"
    using assms(1) by (simp add: props_def)
  have p: "UpdatePhysics (w\<lparr>grid := g\<rparr>) x y = w\<lparr>grid := ?g2\<rparr>"
    by (rule UpdatePhysics_fall [OF mv assms(2,3)])
  have i2: "inert (type (?g2 (x, y)))" using assms(3) by (simp add: inert_def)
  then have p2: "UpdatePhysics (w\<lparr>grid := ?g2\<rparr>) x y = w\<lparr>grid := ?g2\<rparr>"
    by (intro UpdatePhysics_immovable) (auto simp: inert_def props_def)
  from inert_stages [of ?g2 x y w] i2 obtain t where t:
    "(let w2 = UpdatePhysics (w\<lparr>grid := ?g2\<rparr>) x y;
                  w3 = w2\<lparr>grid := UpdateTemperature (grid w2) x y\<rparr>;
                  w4 = HandleParticleInteractions w3 x y
              in w4\<lparr>grid := ProcessChemicalReactions (grid w4) x y\<rparr>)
             = w\<lparr>grid := ?g2((x, y) := (?g2 (x, y))\<lparr>temperature := t\<rparr>)\<rparr>" by blast
  have "(let w2 = UpdatePhysics (w\<lparr>grid := g\<rparr>) x y;
                  w3 = w2\<lparr>grid := UpdateTemperature (grid w2) x y\<rparr>;
                  w4 = HandleParticleInteractions w3 x y
              in w4\<lparr>grid := ProcessChemicalReactions (grid w4) x y\<rparr>)
        = w\<lparr>grid := ?g2((x, y) := (?g2 (x, y))\<lparr>temperature := t\<rparr>)\<rparr>"
    using t unfolding p p2 .
  moreover have "?g2((x, y) := (?g2 (x, y))\<lparr>temperature := t\<rparr>)
      = g((x, y + 1) := g (x, y), (x, y) := (?g2 (x, y))\<lparr>temperature := t\<rparr>)"
    by (rule ext) simp
  moreover have "type ((?g2 (x, y))\<lparr>temperature := t\<rparr>) = EMPTY"
    using assms(3) by simp
  ultimately show ?thesis by metis
qed

lemma UpdateParticle_sand_falls:
  assumes "IsValidPosition x y" and "y < GRID_HEIGHT - 1"
    and "\<not> updated (grid w (x, y))" and "type (grid w (x, y)) = SAND"
    and "lifetime (grid w (x, y)) \<le> 0" and "type (grid w (x, y + 1)) = EMPTY"
  shows "\<exists>c. UpdateParticle w x y
            = w\<lparr>grid := (grid w)((x, y + 1) := (grid w (x, y))\<lparr>updated := True\<rparr>, (x, y) := c)\<rparr>
          \<and> type c = EMPTY"
proof -
  let ?g1 = "(grid w)((x, y) := (grid w (x, y))\<lparr>updated := True\<rparr>)"
  have a: "type (?g1 (x, y)) = SAND" "type (?g1 (x, y + 1)) = EMPTY"
    using assms(4,6) by simp_all
  from sand_stages [of ?g1 x y w] a assms(2) obtain c where c:
    "(let w2 = UpdatePhysics (w\<lparr>grid := ?g1\<rparr>) x y;
                  w3 = w2\<lparr>grid := UpdateTemperature (grid w2) x y\<rparr>;
                  w4 = HandleParticleInteractions w3 x y
              in w4\<lparr>grid := ProcessChemicalReactions (grid w4) x y\<rparr>)
             = w\<lparr>grid := ?g1((x, y + 1) := ?g1 (x, y), (x, y) := c)\<rparr>" and tc: "type c = EMPTY"
    by blast
  have "UpdateParticle w x y = w\<lparr>grid := ?g1((x, y + 1) := ?g1 (x, y), (x, y) := c)\<rparr>"
    using assms(1,3,5) c unfolding UpdateParticle_def by (simp add: Let_def)
  moreover have "?g1((x, y + 1) := ?g1 (x, y), (x, y) := c)
     = (grid w)((x, y + 1) := (grid w (x, y))\<lparr>updated := True\<rparr>, (x, y) := c)"
    by (rule ext) simp
  ultimately show ?thesis using tc by metis
qed

lemma scan_order_split:
  assumes "IsValidPosition x y"
  shows "\<exists>A B. scan_order = A @ (x, y) # B
      \<and> (\<forall>p \<in> set A. IsValidPosition (fst p) (snd p) \<and> p \<noteq> (x, y))
      \<and> (\<forall>p \<in> set B. IsValidPosition (fst p) (snd p) \<and> p \<noteq> (x, y) \<and> snd p \<le> y)"
proof -
  let ?row = "\<lambda>y. map (\<lambda>x. (x, y)) [0..GRID_WIDTH - 1]"
  let ?A = "concat (map ?row (rev [y + 1..GRID_HEIGHT - 1])) @ map (\<lambda>x. (x, y)) [0..x - 1]"
  let ?B = "map (\<lambda>x. (x, y)) [x + 1..GRID_WIDTH - 1] @ concat (map ?row (rev [0..y - 1]))"
  have xs: "[0..GRID_WIDTH - 1] = [0..x - 1] @ x # [x + 1..GRID_WIDTH - 1]"
    using assms by (intro upto_split3) (simp_all add: IsValidPosition_def)
  have ys: "[0..GRID_HEIGHT - 1] = [0..y - 1] @ y # [y + 1..GRID_HEIGHT - 1]"
    using assms by (intro upto_split3) (simp_all add: IsValidPosition_def)
  have "scan_order = concat (map ?row (rev ([0..y - 1] @ y # [y + 1..GRID_HEIGHT - 1])))"
    unfolding scan_order_def using ys by simp
  also have "\<dots> = concat (map ?row (rev [y + 1..GRID_HEIGHT - 1])) @ ?row y
                    @ concat (map ?row (rev [0..y - 1]))"
    by simp
  also have "?row y = map (\<lambda>x. (x, y)) [0..x - 1] @ (x, y) # map (\<lambda>x. (x, y)) [x + 1..GRID_WIDTH - 1]"
    using xs by (metis list.simps(9) map_append)
  finally have 1: "scan_order = ?A @ (x, y) # ?B" by simp
  have 2: "\<forall>p \<in> set ?A. IsValidPosition (fst p) (snd p) \<and> p \<noteq> (x, y)"
    using assms by (auto simp: IsValidPosition_def)
  have 3: "\<forall>p \<in> set ?B. IsValidPosition (fst p) (snd p) \<and> p \<noteq> (x, y) \<and> snd p \<le> y"
    using assms by (auto simp: IsValidPosition_def)
  show ?thesis using 1 2 3 by blast
qed

lemma sand_tick:
  assumes v: "IsValidPosition x y" and v1: "IsValidPosition x (y + 1)"
    and s: "type (grid w (x, y)) = SAND" and l: "lifetime (grid w (x, y)) \<le> 0"
    and e: "type (grid w (x, y + 1)) = EMPTY"
    and o: "\<forall>p. IsValidPosition (fst p) (snd p) \<and> p \<noteq> (x, y) \<longrightarrow> inert (type (grid w p))"
  shows "grid (UpdateParticles w) (x, y + 1) = (grid w (x, y))\<lparr>updated := True\<rparr>
    \<and> (\<forall>p. IsValidPosition (fst p) (snd p) \<and> p \<noteq> (x, y + 1)
            \<longrightarrow> inert (type (grid (UpdateParticles w) p)))
    \<and> (\<forall>p. p \<noteq> (x, y + 1) \<and> type (grid w p) = EMPTY
            \<longrightarrow> type (grid (UpdateParticles w) p) = EMPTY)"
proof -
  let ?w0 = "w\<lparr>grid := reset_updated (grid w)\<rparr>"
  let ?run = "fold (\<lambda>(x, y) w. UpdateParticle w x y)"
  have ty0: "type (reset_updated (grid w) p) = type (grid w p)" for p
    by (simp add: reset_updated_eq)
  have g0: "reset_updated (grid w) (x, y) = (grid w (x, y))\<lparr>updated := False\<rparr>"
    using v by (simp add: reset_updated_eq)
  obtain A B where sc: "scan_order = A @ (x, y) # B"
    and A: "\<forall>p \<in> set A. IsValidPosition (fst p) (snd p) \<and> p \<noteq> (x, y)"
    and B: "\<forall>p \<in> set B. IsValidPosition (fst p) (snd p) \<and> p \<noteq> (x, y) \<and> snd p \<le> y"
    using scan_order_split [OF v] by blast
  let ?wA = "?run A ?w0"
  have iA: "\<forall>p \<in> set A. inert (type (grid ?w0 p))"
  proof
    fix p assume "p \<in> set A"
    then have "IsValidPosition (fst p) (snd p) \<and> p \<noteq> (x, y)" using A by blast
    then have "inert (type (grid w p))" using o by blast
    then show "inert (type (grid ?w0 p))" by (simp add: ty0)
  qed
  note fA = fold_inert [OF iA]
  have gA: "grid ?wA (x, y) = (grid w (x, y))\<lparr>updated := False\<rparr>"
  proof -
    have "(x, y) \<notin> set A" using A by blast
    then have "grid ?wA (x, y) = grid ?w0 (x, y)" using fA by blast
    then show ?thesis by (simp add: g0)
  qed
  have inA: "inert (type (grid ?wA p))" if "IsValidPosition (fst p) (snd p)" "p \<noteq> (x, y)" for p
  proof -
    have "inert (type (grid w p))" using o that by blast
    then have "inert (type (grid ?w0 p))" by (simp add: ty0)
    then show ?thesis using fA by blast
  qed
  have emA: "type (grid ?wA p) = EMPTY" if "type (grid w p) = EMPTY" for p
  proof -
    have "type (grid ?w0 p) = EMPTY" using that by (simp add: ty0)
    then show ?thesis using fA by blast
  qed
  have yH: "y < GRID_HEIGHT - 1" using v1 by (simp add: IsValidPosition_def)
  have "\<exists>c. UpdateParticle ?wA x y
            = ?wA\<lparr>grid := (grid ?wA)((x, y + 1) := (grid ?wA (x, y))\<lparr>updated := True\<rparr>, (x, y) := c)\<rparr>
          \<and> type c = EMPTY"
    by (rule UpdateParticle_sand_falls [OF v yH]) (use s l e emA in \<open>simp_all add: gA\<close>)
  then obtain c where c: "UpdateParticle ?wA x y
            = ?wA\<lparr>grid := (grid ?wA)((x, y + 1) := (grid ?wA (x, y))\<lparr>updated := True\<rparr>, (x, y) := c)\<rparr>"
    and tc: "type c = EMPTY" by blast
  let ?wS = "?wA\<lparr>grid := (grid ?wA)((x, y + 1) := (grid w (x, y))\<lparr>updated := True\<rparr>, (x, y) := c)\<rparr>"
  have wS: "UpdateParticle ?wA x y = ?wS" unfolding c by (simp add: gA)
  have gS1: "grid ?wS (x, y + 1) = (grid w (x, y))\<lparr>updated := True\<rparr>" by simp
  have inS: "inert (type (grid ?wS p))" if "IsValidPosition (fst p) (snd p)" "p \<noteq> (x, y + 1)" for p
    using inA [of p] that tc by (cases "p = (x, y)") (simp_all add: inert_def)
  have emS: "type (grid ?wS p) = EMPTY" if "type (grid w p) = EMPTY" "p \<noteq> (x, y + 1)" for p
    using emA [of p] that tc by (cases "p = (x, y)") simp_all
  have nB: "(x, y + 1) \<notin> set B" using B by force
  have iB: "\<forall>p \<in> set B. inert (type (grid ?wS p))"
  proof
    fix p assume p: "p \<in> set B"
    then have "IsValidPosition (fst p) (snd p)" "p \<noteq> (x, y + 1)" using B nB by auto
    then show "inert (type (grid ?wS p))" by (rule inS)
  qed
  note fB = fold_inert [OF iB]
  have run: "UpdateParticles w = ?run B ?wS"
    unfolding UpdateParticles_scan sc by (simp add: wS)
  have r1: "grid (?run B ?wS) (x, y + 1) = (grid w (x, y))\<lparr>updated := True\<rparr>"
  proof -
    have "grid (?run B ?wS) (x, y + 1) = grid ?wS (x, y + 1)" using fB nB by blast
    then show ?thesis by (simp only: gS1)
  qed
  have r2: "inert (type (grid (?run B ?wS) p))"
    if "IsValidPosition (fst p) (snd p) \<and> p \<noteq> (x, y + 1)" for p
  proof -
    have "inert (type (grid ?wS p))" using inS that by blast
    then show ?thesis using fB by blast
  qed
  have r3: "type (grid (?run B ?wS) p) = EMPTY" if "p \<noteq> (x, y + 1) \<and> type (grid w p) = EMPTY" for p
  proof -
    have "type (grid ?wS p) = EMPTY" using emS that by blast
    then show ?thesis using fB by blast
  qed
  show ?thesis unfolding run using r1 r2 r3 by blast
qed

definition falling_sand :: "'a world \<Rightarrow> int \<Rightarrow> int \<Rightarrow> nat \<Rightarrow> bool" where
  "falling_sand w x y n \<longleftrightarrow>
     IsValidPosition x y \<and> IsValidPosition x (y + int n)
     \<and> type (grid w (x, y)) = SAND \<and> lifetime (grid w (x, y)) \<le> 0
     \<and> (\<forall>k. 1 \<le> k \<and> k \<le> n \<longrightarrow> type (grid w (x, y + int k)) = EMPTY)
     \<and> (\<forall>p. IsValidPosition (fst p) (snd p) \<and> p \<noteq> (x, y) \<longrightarrow> inert (type (grid w p)))"

lemma falling_sand_step:
  assumes "falling_sand w x y (Suc n)"
  shows "falling_sand (UpdateParticles w) x (y + 1) n"
proof -
  have v: "IsValidPosition x y" and vn: "IsValidPosition x (y + int (Suc n))"
    and s: "type (grid w (x, y)) = SAND" and l: "lifetime (grid w (x, y)) \<le> 0"
    and e: "\<And>k. 1 \<le> k \<and> k \<le> Suc n \<Longrightarrow> type (grid w (x, y + int k)) = EMPTY"
    and o: "\<forall>p. IsValidPosition (fst p) (snd p) \<and> p \<noteq> (x, y) \<longrightarrow> inert (type (grid w p))"
    using assms unfolding falling_sand_def by blast+
  have v1: "IsValidPosition x (y + 1)"
    using v vn by (simp add: IsValidPosition_def)
  have e1: "type (grid w (x, y + 1)) = EMPTY" using e [of 1] by simp
  note t = sand_tick [OF v v1 s l e1 o]
  have a: "grid (UpdateParticles w) (x, y + 1) = (grid w (x, y))\<lparr>updated := True\<rparr>"
    using t by blast
  have b: "\<forall>p. IsValidPosition (fst p) (snd p) \<and> p \<noteq> (x, y + 1)
            \<longrightarrow> inert (type (grid (UpdateParticles w) p))"
    using t by blast
  have c: "type (grid (UpdateParticles w) p) = EMPTY"
    if "p \<noteq> (x, y + 1)" "type (grid w p) = EMPTY" for p
    using t that by blast
  have e': "type (grid (UpdateParticles w) (x, y + 1 + int k)) = EMPTY" if "1 \<le> k \<and> k \<le> n" for k
  proof -
    have "type (grid w (x, y + int (Suc k))) = EMPTY" using e [of "Suc k"] that by simp
    moreover have "(x, y + int (Suc k)) \<noteq> (x, y + 1)" using that by simp
    ultimately have "type (grid (UpdateParticles w) (x, y + int (Suc k))) = EMPTY" by (intro c)
    moreover have "y + int (Suc k) = y + 1 + int k" by simp
    ultimately show ?thesis by (simp only:)
  qed
  have "y + int (Suc n) = y + 1 + int n" by simp
  then have vn': "IsValidPosition x (y + 1 + int n)" using vn by (simp only:)
  show ?thesis
    unfolding falling_sand_def using v1 vn' s l a b e' by simp
qed

lemma falling_sand_funpow:
  assumes "falling_sand w x y n" and "k \<le> n"
  shows "falling_sand ((UpdateParticles ^^ k) w) x (y + int k) (n - k)"
  using assms(2)
proof (induction k)
  case 0
  show ?case using assms(1) by simp
next
  case (Suc k)
  then have "falling_sand ((UpdateParticles ^^ k) w) x (y + int k) (n - k)" by simp
  moreover have "n - k = Suc (n - Suc k)" using Suc.prems by simp
  ultimately have "falling_sand (UpdateParticles ((UpdateParticles ^^ k) w)) x (y + int k + 1) (n - Suc k)"
    using falling_sand_step by metis
  moreover have "y + int k + 1 = y + int (Suc k)" by simp
  ultimately show ?case by (simp only: funpow.simps o_apply)
qed

text \<open>The initial grid of \<^verbatim>\<open>InitializeGrid\<close> with one Sand cell of temperature \<open>t\<close> at \<open>(80, 10)\<close>:
  the 78 cells below it are Empty, the floor is at row 89.\<close>

definition sand_world :: "real \<Rightarrow> unit world" where
  "sand_world t =
     \<lparr>grid = (InitializeGrid empty_cells)((80, 10) := (placed SAND)\<lparr>temperature := t\<rparr>),
      rnd = (\<lambda>n. 0)\<rparr>"

lemma sand_world_inert:
  "IsValidPosition (fst p) (snd p) \<and> p \<noteq> (80, 10)
     \<longrightarrow> type (grid (sand_world t) p) = EMPTY \<or> type (grid (sand_world t) p) = WALL"
  by (simp add: sand_world_def InitializeGrid_eq InitializeGrid_cell_def Let_def)

lemma sand_world_column:
  "1 \<le> k \<and> k \<le> 78 \<longrightarrow> type (grid (sand_world t) (80, 10 + int k)) = EMPTY"
  by (simp add: sand_world_def InitializeGrid_eq InitializeGrid_cell_def Let_def valid_iff
      GRID_WIDTH_eq GRID_HEIGHT_eq)

lemma sand_world_sand:
  "type (grid (sand_world t) (80, 10)) = SAND" "lifetime (grid (sand_world t) (80, 10)) = -1"
  "temperature (grid (sand_world t) (80, 10)) = t"
  by (simp_all add: sand_world_def placed_def PlaceParticles_cell_def props_def)

subsection \<open>Occupants and their processed flags\<close>


























lemma scan_order_product:
  "scan_order = map prod.swap (List.product (rev [0..GRID_HEIGHT - 1]) [0..GRID_WIDTH - 1])"
proof -
  have "concat (map (\<lambda>y. map (\<lambda>x. (x, y)) xs) ys) = map prod.swap (List.product ys xs)"
    for xs ys :: "int list"
    by (induction ys) (simp_all add: comp_def)
  then show ?thesis unfolding scan_order_def by blast
qed

lemma distinct_scan_order: "distinct scan_order"
  unfolding scan_order_product
  by (simp add: distinct_map distinct_product inj_on_def)

lemma set_scan_order: "set scan_order = {p. IsValidPosition (fst p) (snd p)}"
  unfolding scan_order_product by (auto simp: IsValidPosition_def)

lemma length_scan_order: "length scan_order = nat (GRID_WIDTH * GRID_HEIGHT)"
  unfolding scan_order_product by (simp add: GRID_WIDTH_eq GRID_HEIGHT_eq)

lemma scan_order_nth:
  assumes "k < nat (GRID_WIDTH * GRID_HEIGHT)"
  shows "scan_order ! k = (int k mod GRID_WIDTH, GRID_HEIGHT - 1 - int k div GRID_WIDTH)"
proof -
  let ?ys = "rev [0..GRID_HEIGHT - 1]" and ?xs = "[0..GRID_WIDTH - 1]"
  have lx: "length ?xs = 160" and ly: "length ?ys = 90"
    by (simp_all add: GRID_WIDTH_eq GRID_HEIGHT_eq)
  have k: "k < 14400" using assms by (simp add: GRID_WIDTH_eq GRID_HEIGHT_eq)
  then have kd: "k div 160 < 90" and km: "k mod 160 < 160" by simp_all
  have "k < length ?ys * length ?xs" unfolding lx ly using k by simp
  then have "List.product ?ys ?xs ! k = (?ys ! (k div length ?xs), ?xs ! (k mod length ?xs))"
    by (rule product_nth)
  moreover have "?ys ! (k div 160) = GRID_HEIGHT - 1 - int (k div 160)"
    using kd by (simp add: rev_nth GRID_HEIGHT_eq)
  moreover have "?xs ! (k mod 160) = int (k mod 160)"
    using km by (simp add: GRID_WIDTH_eq)
  moreover have "k < length (List.product ?ys ?xs)"
    unfolding length_product lx ly using k by simp
  ultimately have "scan_order ! k = (int (k mod 160), GRID_HEIGHT - 1 - int (k div 160))"
    unfolding scan_order_product lx by simp
  then show ?thesis by (simp add: GRID_WIDTH_eq zmod_int zdiv_int)
qed

subsection \<open>Hot Sand at rest\<close>

text \<open>
  A Sand cell of temperature 1701 in the bottom left corner \<open>(0, 89)\<close> of the initial grid,
  the first position a tick visits. It cannot move; its three neighbours in the grid have
  temperature 20.
\<close>

lemma UpdatePhysics_sand_corner:
  assumes "type (g (0, 89)) = SAND"
  shows "grid (UpdatePhysics (w\<lparr>grid := g\<rparr>) 0 89) = g"
  using assms
  by (simp add: UpdatePhysics_def Let_def GetRandomValue_def valid_iff GRID_HEIGHT_eq props_def
      split: prod.splits)

lemma UpdateTemperature_corner:
  assumes "temperature (g (0, 89)) = 1701" and "temperature (g (0, 88)) = 20"
    and "temperature (g (1, 88)) = 20" and "temperature (g (1, 89)) = 20"
  shows "UpdateTemperature g 0 89 = g((0, 89) := (g (0, 89))\<lparr>temperature := 1499.23\<rparr>)"
  using assms
  by (simp add: UpdateTemperature_def for_neighbours_flat offsets_def UpdateTemperature_body_def
      valid_iff TEMPERATURE_SPREAD_def COOLING_RATE_def)

lemma UpdateParticle_sand_corner:
  assumes "type (grid w (0, 89)) = SAND" and "\<not> updated (grid w (0, 89))"
    and "lifetime (grid w (0, 89)) \<le> 0"
    and "temperature (grid w (0, 89)) = 1701" and "temperature (grid w (0, 88)) = 20"
    and "temperature (grid w (1, 88)) = 20" and "temperature (grid w (1, 89)) = 20"
  shows "grid (UpdateParticle w 0 89)
           = (grid w)((0, 89) := (grid w (0, 89))\<lparr>updated := True, temperature := 1499.23\<rparr>)"
proof -
  let ?g1 = "(grid w)((0, 89) := (grid w (0, 89))\<lparr>updated := True\<rparr>)"
  let ?w2 = "UpdatePhysics (w\<lparr>grid := ?g1\<rparr>) 0 89"
  let ?w3 = "?w2\<lparr>grid := UpdateTemperature (grid ?w2) 0 89\<rparr>"
  let ?w4 = "HandleParticleInteractions ?w3 0 89"
  let ?g3 = "?g1((0, 89) := (?g1 (0, 89))\<lparr>temperature := 1499.23\<rparr>)"
  have g2: "grid ?w2 = ?g1"
    by (rule UpdatePhysics_sand_corner) (simp add: assms(1))
  have g3: "UpdateTemperature (grid ?w2) 0 89 = ?g3"
    using UpdateTemperature_corner [of ?g1] assms(4-7) by (simp add: g2)
  have w4: "?w4 = ?w3"
    by (rule HandleParticleInteractions_inert) (simp add: g3 assms(1))
  have "ProcessChemicalReactions ?g3 0 89 = ?g3"
    using assms(1) by (simp add: ProcessChemicalReactions_def Let_def)
  then have "grid (?w4\<lparr>grid := ProcessChemicalReactions (grid ?w4) 0 89\<rparr>) = ?g3"
    unfolding w4 by (simp add: g3)
  moreover have "UpdateParticle w 0 89 = ?w4\<lparr>grid := ProcessChemicalReactions (grid ?w4) 0 89\<rparr>"
    using assms(2,3) unfolding UpdateParticle_def by (simp add: Let_def valid_iff)
  moreover have "?g3 = (grid w)((0, 89) := (grid w (0, 89))\<lparr>updated := True, temperature := 1499.23\<rparr>)"
    by (rule ext) simp
  ultimately show ?thesis by simp
qed

lemma scan_order_first:
  "scan_order = (0, 89) # tl scan_order \<and> (0, 89) \<notin> set (tl scan_order)
   \<and> (\<forall>p \<in> set (tl scan_order). IsValidPosition (fst p) (snd p))"
proof -
  have n: "scan_order \<noteq> []" using length_scan_order by (auto simp: GRID_WIDTH_eq GRID_HEIGHT_eq)
  have "scan_order ! 0 = (0, 89)"
    using scan_order_nth [of 0] by (simp add: GRID_WIDTH_eq GRID_HEIGHT_eq)
  then have h: "hd scan_order = (0, 89)" using n by (simp add: hd_conv_nth)
  then have 1: "scan_order = (0, 89) # tl scan_order" using n by (metis list.collapse)
  have 2: "(0, 89) \<notin> set (tl scan_order)"
    using distinct_scan_order 1 by (metis distinct.simps(2))
  have 3: "\<forall>p \<in> set (tl scan_order). IsValidPosition (fst p) (snd p)"
    using set_scan_order n by (metis (mono_tags, lifting) list.set_sel(2) mem_Collect_eq)
  show ?thesis using 1 2 3 by blast
qed

definition corner_sand_world :: "unit world" where
  "corner_sand_world =
     \<lparr>grid = (InitializeGrid empty_cells)((0, 89) := (placed SAND)\<lparr>temperature := 1701\<rparr>),
      rnd = (\<lambda>n. 0)\<rparr>"

lemma corner_sand_tick:
  "grid (UpdateParticles corner_sand_world) (0, 89)
     = (placed SAND)\<lparr>updated := True, temperature := 1499.23\<rparr>"
proof -
  let ?w0 = "corner_sand_world\<lparr>grid := reset_updated (grid corner_sand_world)\<rparr>"
  let ?g0 = "reset_updated (grid corner_sand_world)"
  let ?w1 = "UpdateParticle ?w0 0 89"
  let ?run = "fold (\<lambda>(x, y) w. UpdateParticle w x y)"
  have c: "?g0 (0, 89) = (placed SAND)\<lparr>temperature := 1701\<rparr>"
    by (simp add: reset_updated_eq corner_sand_world_def valid_iff placed_def
        PlaceParticles_cell_def)
  have t: "temperature (?g0 (0, 88)) = 20" "temperature (?g0 (1, 88)) = 20"
    "temperature (?g0 (1, 89)) = 20"
    by (simp_all add: reset_updated_eq corner_sand_world_def valid_iff InitializeGrid_eq
        InitializeGrid_cell_def Let_def empty_cells_def default_Particle_def)
  have ty: "inert (type (?g0 p))" if "p \<noteq> (0, 89)" "IsValidPosition (fst p) (snd p)" for p
    using that
    by (simp add: reset_updated_eq corner_sand_world_def InitializeGrid_eq
        InitializeGrid_cell_def Let_def empty_cells_def default_Particle_def inert_def)
  have g1: "grid ?w1 = ?g0((0, 89) := (?g0 (0, 89))\<lparr>updated := True, temperature := 1499.23\<rparr>)"
    using UpdateParticle_sand_corner [of ?w0] t
    by (simp add: c placed_def PlaceParticles_cell_def props_def)
  obtain rest where sc: "scan_order = (0, 89) # rest" and nr: "(0, 89) \<notin> set rest"
    and vr: "\<forall>p \<in> set rest. IsValidPosition (fst p) (snd p)"
    using scan_order_first by blast
  have ir: "\<forall>p \<in> set rest. inert (type (grid ?w1 p))"
  proof
    fix p assume p: "p \<in> set rest"
    then have "p \<noteq> (0, 89)" "IsValidPosition (fst p) (snd p)" using nr vr by auto
    then show "inert (type (grid ?w1 p))" using ty [of p] by (simp add: g1)
  qed
  have "UpdateParticles corner_sand_world = ?run rest ?w1"
    unfolding UpdateParticles_scan sc by simp
  moreover have "grid (?run rest ?w1) (0, 89) = grid ?w1 (0, 89)"
    using fold_inert [OF ir] nr by blast
  ultimately show ?thesis by (simp add: g1 c)
qed

subsection \<open>Visits of single cells\<close>

text \<open>
  What one call of \<^verbatim>\<open>UpdateParticle\<close> does at a cell that cannot move, at a cell that falls,
  and at a cell that no stage changes beyond its flag and its temperature.
\<close>

lemma GetRandomValue_coin:
  "fst (GetRandomValue 0 1 w) * 2 - 1 = - 1 \<or> fst (GetRandomValue 0 1 w) * 2 - 1 = 1"
proof -
  have "rnd w 0 mod 2 = 0 \<or> rnd w 0 mod 2 = 1" by arith
  then show ?thesis by (auto simp: GetRandomValue_def)
qed

lemma UpdatePhysics_blocked_sand:
  assumes "type (grid w (x, y)) = SAND"
    and "\<not> (y < GRID_HEIGHT - 1 \<and> type (grid w (x, y + 1)) = EMPTY)"
    and "\<not> (IsValidPosition (x - 1) (y + 1) \<and> type (grid w (x - 1, y + 1)) = EMPTY)"
    and "\<not> (IsValidPosition (x + 1) (y + 1) \<and> type (grid w (x + 1, y + 1)) = EMPTY)"
  shows "grid (UpdatePhysics w x y) = grid w"
proof -
  obtain r w1 where r: "GetRandomValue 0 1 w = (r, w1)" by (cases "GetRandomValue 0 1 w")
  then have g1: "grid w1 = grid w" by (auto simp: GetRandomValue_def)
  have nb: "(y < GRID_HEIGHT - 1 \<and> type (grid w (x, y + 1)) = EMPTY) = False"
    using assms(2) by simp
  have d: "r * 2 - 1 = - 1 \<or> r * 2 - 1 = 1" using GetRandomValue_coin [of w] r by simp
  have u: "UpdatePhysics w x y =
        (if IsValidPosition (x + (r * 2 - 1)) (y + 1) \<and> type (grid w1 (x + (r * 2 - 1), y + 1)) = EMPTY
           then move_to w1 (x, y) (x + (r * 2 - 1), y + 1)
         else if IsValidPosition (x - (r * 2 - 1)) (y + 1) \<and> type (grid w1 (x - (r * 2 - 1), y + 1)) = EMPTY
           then move_to w1 (x, y) (x - (r * 2 - 1), y + 1)
         else w1)"
    using assms(1) by (simp add: UpdatePhysics_def Let_def r nb props_def)
  from d show ?thesis
  proof
    assume "r * 2 - 1 = - 1"
    then show ?thesis unfolding u using assms(3,4) g1 by auto
  next
    assume "r * 2 - 1 = 1"
    then show ?thesis unfolding u using assms(3,4) g1 by auto
  qed
qed


lemma UpdateTemperature_body_cong:
  assumes "\<And>p. temperature (g' p) = temperature (g p)"
  shows "UpdateTemperature_body g' x y = UpdateTemperature_body g x y"
  by (intro ext) (simp add: UpdateTemperature_body_def assms split: prod.splits)

lemma UpdateTemperature_cong:
  assumes "\<And>p. temperature (g' p) = temperature (g p)"
  shows "temperature (UpdateTemperature g' x y (x, y)) = temperature (UpdateTemperature g x y (x, y))"
proof -
  obtain a c where ac: "for_neighbours (UpdateTemperature_body g x y) (temperature (g (x, y)), 1) = (a, c)"
    by (cases "for_neighbours (UpdateTemperature_body g x y) (temperature (g (x, y)), 1)")
  have b: "UpdateTemperature_body g' x y = UpdateTemperature_body g x y"
    by (rule UpdateTemperature_body_cong) (rule assms)
  have t: "temperature (g' (x, y)) = temperature (g (x, y))" by (rule assms)
  show ?thesis
    unfolding UpdateTemperature_def Let_def b t ac prod.case by simp
qed

lemma UpdateTemperature_eq:
  "UpdateTemperature g x y
     = g((x, y) := (g (x, y))\<lparr>temperature := temperature (UpdateTemperature g x y (x, y))\<rparr>)"
proof -
  obtain t where t: "UpdateTemperature g x y = g((x, y) := (g (x, y))\<lparr>temperature := t\<rparr>)"
    using UpdateTemperature_upd by blast
  then have "temperature (UpdateTemperature g x y (x, y)) = t" by simp
  then show ?thesis using t by simp
qed

lemma UpdateTemperature_flagged:
  "UpdateTemperature (g((x, y) := (g (x, y))\<lparr>updated := True\<rparr>)) x y
     = g((x, y) := (g (x, y))\<lparr>updated := True,
                                temperature := temperature (UpdateTemperature g x y (x, y))\<rparr>)"
proof -
  let ?g1 = "g((x, y) := (g (x, y))\<lparr>updated := True\<rparr>)"
  have "temperature (UpdateTemperature ?g1 x y (x, y)) = temperature (UpdateTemperature g x y (x, y))"
    by (rule UpdateTemperature_cong) simp
  then show ?thesis using UpdateTemperature_eq [of ?g1 x y] by simp
qed



text \<open>
  Cells at rest. \<open>same_matter g g'\<close>: the two grids differ at most in processed flags and
  temperatures. \<open>warm g\<close>: no cell of the grid has a temperature below 0. \<open>at_rest g p\<close>: the
  cell at \<open>p\<close> has no running lifetime counter, is of a material without interaction,
  reaction or sideways movement, and does not fall; a visit of \<^verbatim>\<open>UpdateParticle\<close> then
  changes at most its flag and its temperature.
\<close>

definition same_matter :: "'a cells \<Rightarrow> 'a cells \<Rightarrow> bool" where
  "same_matter g g' \<longleftrightarrow>
     (\<forall>p. (g' p)\<lparr>updated := False, temperature := 0\<rparr> = (g p)\<lparr>updated := False, temperature := 0\<rparr>)"

definition warm :: "'a cells \<Rightarrow> bool" where
  "warm g \<longleftrightarrow> (\<forall>p. IsValidPosition (fst p) (snd p) \<longrightarrow> 0 \<le> temperature (g p))"

definition at_rest :: "'a cells \<Rightarrow> pos \<Rightarrow> bool" where
  "at_rest g p \<longleftrightarrow>
     lifetime (g p) \<le> 0 \<and> type (g p) \<notin> {SAND, WATER, OIL, FIRE, LAVA, ACID}
     \<and> (movable (particleProps (type (g p)))
          \<longrightarrow> \<not> (snd p < GRID_HEIGHT - 1 \<and> type (g (fst p, snd p + 1)) = EMPTY))"

lemma same_matter_refl: "same_matter g g"
  by (simp add: same_matter_def)

lemma same_matter_trans: "same_matter a b \<Longrightarrow> same_matter b c \<Longrightarrow> same_matter a c"
  by (simp add: same_matter_def)

lemma same_matterD:
  assumes "same_matter g g'"
  shows "type (g' p) = type (g p)" "lifetime (g' p) = lifetime (g p)"
    "color (g' p) = color (g p)" "Particle.more (g' p) = Particle.more (g p)"
proof -
  have e: "(g' p)\<lparr>updated := False, temperature := 0\<rparr> = (g p)\<lparr>updated := False, temperature := 0\<rparr>"
    using assms unfolding same_matter_def by blast
  show "type (g' p) = type (g p)" using arg_cong [OF e, of type] by simp
  show "lifetime (g' p) = lifetime (g p)" using arg_cong [OF e, of lifetime] by simp
  show "color (g' p) = color (g p)" using arg_cong [OF e, of color] by simp
  show "Particle.more (g' p) = Particle.more (g p)" using arg_cong [OF e, of Particle.more] by simp
qed

lemma at_rest_cong:
  assumes "same_matter g g'"
  shows "at_rest g' p = at_rest g p"
  unfolding at_rest_def same_matterD [OF assms] ..

lemma UpdateTemperature_warm:
  assumes "warm g" and "IsValidPosition x y"
  shows "0 \<le> temperature (UpdateTemperature g x y (x, y))"
proof -
  obtain a c where ac: "for_neighbours (UpdateTemperature_body g x y) (temperature (g (x, y)), 1) = (a, c)"
    by (cases "for_neighbours (UpdateTemperature_body g x y) (temperature (g (x, y)), 1)")
  have t0: "0 \<le> temperature (g (x, y))" using assms unfolding warm_def by auto
  have "0 \<le> fst (for_neighbours (UpdateTemperature_body g x y) (temperature (g (x, y)), 1))
      \<and> 1 \<le> snd (for_neighbours (UpdateTemperature_body g x y) (temperature (g (x, y)), 1))"
  proof (rule for_neighbours_pres [where P = "\<lambda>s. 0 \<le> fst s \<and> 1 \<le> snd s"])
    show "0 \<le> fst (temperature (g (x, y)), 1 :: int) \<and> 1 \<le> snd (temperature (g (x, y)), 1 :: int)"
      using t0 by simp
  next
    fix dx dy and s :: "real \<times> int"
    assume h: "0 \<le> fst s \<and> 1 \<le> snd s"
    have "IsValidPosition (x + dx) (y + dy) \<Longrightarrow> 0 \<le> temperature (g (x + dx, y + dy))"
      using assms(1) unfolding warm_def by auto
    then show "0 \<le> fst (UpdateTemperature_body g x y dx dy s)
        \<and> 1 \<le> snd (UpdateTemperature_body g x y dx dy s)"
      using h by (cases s) (auto simp: UpdateTemperature_body_def)
  qed
  then have a: "0 \<le> a" and c: "1 \<le> c" unfolding ac by simp_all
  have q: "0 \<le> a / real_of_int c" using a c by simp
  define t where "t = a / real_of_int c * TEMPERATURE_SPREAD
      + temperature (g (x, y)) * (1 - TEMPERATURE_SPREAD)"
  have t: "0 \<le> t"
    unfolding t_def using q t0 by (simp add: TEMPERATURE_SPREAD_def)
  have "temperature (UpdateTemperature g x y (x, y))
      = (if t > 20 then t - COOLING_RATE else if t < 20 then t + COOLING_RATE else t)"
    unfolding UpdateTemperature_def Let_def ac prod.case t_def by simp
  then show ?thesis using t by (simp add: COOLING_RATE_def)
qed

lemma UpdatePhysics_at_rest:
  assumes "at_rest (grid w) (x, y)"
  shows "UpdatePhysics w x y = w"
proof (cases "movable (particleProps (type (grid w (x, y))))")
  case False
  then show ?thesis by (rule UpdatePhysics_immovable)
next
  case True
  then have nb: "(y < GRID_HEIGHT - 1 \<and> type (grid w (x, y + 1)) = EMPTY) = False"
    using assms by (simp add: at_rest_def)
  have ty: "type (grid w (x, y)) \<noteq> WATER" "type (grid w (x, y)) \<noteq> OIL"
    "type (grid w (x, y)) \<noteq> SAND"
    using assms by (auto simp: at_rest_def)
  show ?thesis by (simp add: UpdatePhysics_def Let_def nb ty)
qed

lemma at_rest_flagged:
  "at_rest (g((x, y) := (g (x, y))\<lparr>updated := True\<rparr>)) (x, y) = at_rest g (x, y)"
  by (simp add: at_rest_def)

lemma UpdateParticle_at_rest_eq:
  assumes "at_rest (grid w) (x, y)" and "IsValidPosition x y" and "\<not> updated (grid w (x, y))"
  shows "UpdateParticle w x y
     = w\<lparr>grid := (grid w)((x, y) := (grid w (x, y))
            \<lparr>updated := True, temperature := temperature (UpdateTemperature (grid w) x y (x, y))\<rparr>)\<rparr>"
proof -
  let ?t = "temperature (UpdateTemperature (grid w) x y (x, y))"
  let ?g1 = "(grid w)((x, y) := (grid w (x, y))\<lparr>updated := True\<rparr>)"
  let ?g3 = "(grid w)((x, y) := (grid w (x, y))\<lparr>updated := True, temperature := ?t\<rparr>)"
  define w2 where "w2 = UpdatePhysics (w\<lparr>grid := ?g1\<rparr>) x y"
  define w3 where "w3 = w2\<lparr>grid := UpdateTemperature (grid w2) x y\<rparr>"
  define w4 where "w4 = HandleParticleInteractions w3 x y"
  have lf: "lifetime (grid w (x, y)) \<le> 0"
    and ty: "type (grid w (x, y)) \<notin> {SAND, WATER, OIL, FIRE, LAVA, ACID}"
    using assms(1) by (simp_all add: at_rest_def)
  have "at_rest (grid (w\<lparr>grid := ?g1\<rparr>)) (x, y)"
    using assms(1) by (simp add: at_rest_flagged)
  then have w2: "w2 = w\<lparr>grid := ?g1\<rparr>"
    unfolding w2_def by (rule UpdatePhysics_at_rest)
  have w3: "w3 = w\<lparr>grid := ?g3\<rparr>"
    unfolding w3_def w2 using UpdateTemperature_flagged [of "grid w" x y] by simp
  have w4: "w4 = w3"
    unfolding w4_def by (rule HandleParticleInteractions_inert) (use ty in \<open>simp add: w3\<close>)
  have "ProcessChemicalReactions ?g3 x y = ?g3"
    by (rule ProcessChemicalReactions_inert) (use ty in simp)
  then have r: "w4\<lparr>grid := ProcessChemicalReactions (grid w4) x y\<rparr> = w\<lparr>grid := ?g3\<rparr>"
    unfolding w4 w3 by simp
  have "UpdateParticle w x y = w4\<lparr>grid := ProcessChemicalReactions (grid w4) x y\<rparr>"
    using assms(2,3) lf unfolding UpdateParticle_def w4_def w3_def w2_def by (simp add: Let_def)
  then show ?thesis unfolding r .
qed

lemma UpdateParticle_skip:
  "\<not> IsValidPosition x y \<or> updated (grid w (x, y)) \<Longrightarrow> UpdateParticle w x y = w"
  by (simp add: UpdateParticle_def)

lemma UpdateParticle_at_rest:
  assumes "at_rest (grid w) (x, y)"
  shows "rnd (UpdateParticle w x y) = rnd w
       \<and> same_matter (grid w) (grid (UpdateParticle w x y))
       \<and> (\<forall>p. p \<noteq> (x, y) \<longrightarrow> grid (UpdateParticle w x y) p = grid w p)
       \<and> (warm (grid w) \<longrightarrow> warm (grid (UpdateParticle w x y)))"
proof (cases "\<not> IsValidPosition x y \<or> updated (grid w (x, y))")
  case True
  then have "UpdateParticle w x y = w" by (rule UpdateParticle_skip)
  then show ?thesis by (simp add: same_matter_refl)
next
  case False
  then have v: "IsValidPosition x y" and nu: "\<not> updated (grid w (x, y))" by simp_all
  let ?t = "temperature (UpdateTemperature (grid w) x y (x, y))"
  let ?g3 = "(grid w)((x, y) := (grid w (x, y))\<lparr>updated := True, temperature := ?t\<rparr>)"
  have u: "UpdateParticle w x y = w\<lparr>grid := ?g3\<rparr>"
    by (rule UpdateParticle_at_rest_eq [OF assms v nu])
  have 1: "same_matter (grid w) ?g3" by (simp add: same_matter_def)
  have 2: "warm ?g3" if h: "warm (grid w)"
    unfolding warm_def
  proof (intro allI impI)
    fix p :: pos assume p: "IsValidPosition (fst p) (snd p)"
    show "0 \<le> temperature (?g3 p)"
    proof (cases "p = (x, y)")
      case True
      then show ?thesis using UpdateTemperature_warm [OF h v] by simp
    next
      case False
      have "0 \<le> temperature (grid w p)" using h p unfolding warm_def by blast
      then show ?thesis using False by simp
    qed
  qed
  show ?thesis unfolding u using 1 2 by simp
qed

lemma fold_at_rest:
  assumes "\<forall>p \<in> set ps. at_rest (grid w) p"
  shows "rnd (fold (\<lambda>(x, y) w. UpdateParticle w x y) ps w) = rnd w
       \<and> same_matter (grid w) (grid (fold (\<lambda>(x, y) w. UpdateParticle w x y) ps w))
       \<and> (\<forall>p. p \<notin> set ps \<longrightarrow> grid (fold (\<lambda>(x, y) w. UpdateParticle w x y) ps w) p = grid w p)
       \<and> (warm (grid w) \<longrightarrow> warm (grid (fold (\<lambda>(x, y) w. UpdateParticle w x y) ps w)))"
  using assms
proof (induction ps arbitrary: w)
  case Nil
  show ?case by (simp add: same_matter_refl)
next
  case (Cons q ps)
  obtain x y where q: "q = (x, y)" by (cases q)
  define w1 where "w1 = UpdateParticle w x y"
  have pq: "at_rest (grid w) (x, y)" using Cons.prems by (simp add: q)
  note s = UpdateParticle_at_rest [OF pq, folded w1_def]
  have s1: "rnd w1 = rnd w" and s2: "same_matter (grid w) (grid w1)"
    and s3: "\<And>p. p \<noteq> (x, y) \<Longrightarrow> grid w1 p = grid w p"
    and s4: "warm (grid w) \<Longrightarrow> warm (grid w1)"
    using s by blast+
  have pre: "\<forall>p \<in> set ps. at_rest (grid w1) p"
    using Cons.prems by (simp add: at_rest_cong [OF s2])
  define w' where "w' = fold (\<lambda>(x, y) w. UpdateParticle w x y) ps w1"
  note ih = Cons.IH [OF pre, folded w'_def]
  have i1: "rnd w' = rnd w1" and i2: "same_matter (grid w1) (grid w')"
    and i3: "\<And>p. p \<notin> set ps \<Longrightarrow> grid w' p = grid w1 p"
    and i4: "warm (grid w1) \<Longrightarrow> warm (grid w')"
    using ih by blast+
  have f: "fold (\<lambda>(x, y) w. UpdateParticle w x y) (q # ps) w = w'"
    by (simp add: q w'_def w1_def)
  have 1: "rnd w' = rnd w" using i1 s1 by simp
  have 2: "same_matter (grid w) (grid w')" by (rule same_matter_trans [OF s2 i2])
  have 3: "grid w' p = grid w p" if "p \<notin> set (q # ps)" for p
  proof -
    have "p \<notin> set ps" "p \<noteq> (x, y)" using that by (simp_all add: q)
    then show ?thesis using i3 [of p] s3 [of p] by simp
  qed
  have 4: "warm (grid w')" if "warm (grid w)" using i4 [OF s4 [OF that]] .
  show ?case unfolding f using 1 2 3 4 by blast
qed














lemma placed_fields:
  "type (placed t) = t" "lifetime (placed t) = plifetime (particleProps t)"
  "color (placed t) = pcolor (particleProps t)" "\<not> updated (placed t)"
  "temperature (placed t) = ptemperature (particleProps t)"
  by (simp_all add: placed_def PlaceParticles_cell_def)

lemma still_at_rest:
  assumes "type (g p) = EMPTY \<or> type (g p) = WALL" and "lifetime (g p) \<le> 0"
  shows "at_rest g p"
  using assms by (auto simp: at_rest_def props_def)

subsection \<open>Ticks with one or two active cells\<close>











subsection \<open>Occupants and the stages after the movement\<close>




section \<open>The claims\<close>

subsection \<open>C1: temperature diffusion\<close>

text \<open>A cell of temperature 100 at \<open>(5, 5)\<close> among cells of temperature 20.\<close>

definition hot_cells :: "unit cells" where
  "hot_cells = empty_cells((5, 5) := default_Particle\<lparr>temperature := 100\<rparr>)"

text \<open>
  The diffusion as claim C1 words it: the mean of the cell's own temperature, once, and of
  its in-bounds neighbours, blended and pulled towards 20.
\<close>

definition ambient_pull :: "real \<Rightarrow> real" where
  "ambient_pull t = (if t > 20 then t - 0.05 else if t < 20 then t + 0.05 else t)"

definition spec_neighbours :: "int \<Rightarrow> int \<Rightarrow> pos list" where
  "spec_neighbours x y =
     filter (\<lambda>p. IsValidPosition (fst p) (snd p))
       (map (\<lambda>(dx, dy). (x + dx, y + dy)) (remove1 (0, 0) offsets))"

definition spec_diffusion :: "'a cells \<Rightarrow> int \<Rightarrow> int \<Rightarrow> real" where
  "spec_diffusion g x y =
     (let old = temperature (g (x, y));
          mean = (old + sum_list (map (\<lambda>p. temperature (g p)) (spec_neighbours x y)))
                   / real (1 + length (spec_neighbours x y))
      in ambient_pull (mean * 0.2 + old * 0.8))"

text \<open>What \<^verbatim>\<open>UpdateTemperature\<close> computes for a cell whose 3x3 block is in bounds: ten terms,
  the cell's own temperature twice.\<close>

lemma UpdateTemperature_interior:
  assumes "0 < x" and "x < GRID_WIDTH - 1" and "0 < y" and "y < GRID_HEIGHT - 1"
  shows "temperature (UpdateTemperature g x y (x, y)) =
     ambient_pull
       ((temperature (g (x, y))
          + (temperature (g (x - 1, y - 1)) + temperature (g (x - 1, y))
             + temperature (g (x - 1, y + 1)) + temperature (g (x, y - 1))
             + temperature (g (x, y)) + temperature (g (x, y + 1))
             + temperature (g (x + 1, y - 1)) + temperature (g (x + 1, y))
             + temperature (g (x + 1, y + 1)))) / 10 * TEMPERATURE_SPREAD
        + temperature (g (x, y)) * (1 - TEMPERATURE_SPREAD))"
proof -
  have v: "IsValidPosition (x + dx) (y + dy)" if "dx \<in> {-1, 0, 1}" "dy \<in> {-1, 0, 1}" for dx dy
    using assms that by (auto simp: IsValidPosition_def)
  have "for_neighbours (UpdateTemperature_body g x y) (temperature (g (x, y)), 1)
      = (temperature (g (x, y))
          + (temperature (g (x - 1, y - 1)) + temperature (g (x - 1, y))
             + temperature (g (x - 1, y + 1)) + temperature (g (x, y - 1))
             + temperature (g (x, y)) + temperature (g (x, y + 1))
             + temperature (g (x + 1, y - 1)) + temperature (g (x + 1, y))
             + temperature (g (x + 1, y + 1))), 10)"
    using v [of "-1" "-1"] v [of "-1" 0] v [of "-1" 1] v [of 0 "-1"] v [of 0 0] v [of 0 1]
      v [of 1 "-1"] v [of 1 0] v [of 1 1]
    by (simp add: for_neighbours_flat offsets_def UpdateTemperature_body_def add.assoc)
  then show ?thesis
    by (simp add: UpdateTemperature_def Let_def ambient_pull_def COOLING_RATE_def)
qed

text \<open>
  Claim C1, at a cell of temperature 100 among cells of temperature 20, all nine cells of
  the block in bounds. \<^verbatim>\<open>UpdateTemperature\<close> starts its sum with the cell's own temperature
  and a count of one, and its loops then visit the offset \<open>(0, 0)\<close> too: the mean is
  \<open>(100 + 100 + 8 * 20) / 10 = 36\<close> and the result \<open>87.15\<close>, where the claimed mean of nine
  terms gives \<open>15431 / 180\<close>.
\<close>

theorem diffusion_counts_own_cell_twice:
  "temperature (UpdateTemperature hot_cells 5 5 (5, 5)) = 87.15
   \<and> spec_diffusion hot_cells 5 5 = 15431 / 180
   \<and> temperature (UpdateTemperature hot_cells 5 5 (5, 5)) \<noteq> spec_diffusion hot_cells 5 5"
proof -
  have a: "temperature (UpdateTemperature hot_cells 5 5 (5, 5)) = 87.15"
    by (simp add: UpdateTemperature_def for_neighbours_flat offsets_def
        UpdateTemperature_body_def valid_iff hot_cells_def empty_cells_def
        default_Particle_def TEMPERATURE_SPREAD_def COOLING_RATE_def)
  have b: "spec_diffusion hot_cells 5 5 = 15431 / 180"
    by (simp add: spec_diffusion_def spec_neighbours_def offsets_def valid_iff
        hot_cells_def empty_cells_def default_Particle_def ambient_pull_def)
  show ?thesis unfolding a b by simp
qed

subsection \<open>C2: Sand and Glass\<close>

text \<open>
  Claim C2 as stated fails, whether the Sand moves or not.
  \<^item> A Sand cell of temperature 1701 with an Empty cell below it falls in \<^verbatim>\<open>UpdatePhysics\<close>;
    the later stages of \<^verbatim>\<open>UpdateParticle\<close>, the reaction pass included, then run at the
    position it left, and its new position has already been visited in this tick. After
    the tick it is Sand of temperature 1701 one row down, and the cell it left is not
    Glass either.
  \<^item> A Sand cell of temperature 1701 that cannot move, in the corner \<open>(0, 89)\<close>, first goes
    through the diffusion stage, which takes it to \<open>1499.23\<close>; the reaction pass then
    finds no temperature above 1700, and after the tick the cell is still Sand.
\<close>

theorem hot_sand_stays_sand:
  "type (grid (sand_world 1701) (80, 10)) = SAND
   \<and> temperature (grid (sand_world 1701) (80, 10)) > 1700
   \<and> type (grid (UpdateParticles (sand_world 1701)) (80, 11)) = SAND
   \<and> temperature (grid (UpdateParticles (sand_world 1701)) (80, 11)) = 1701
   \<and> updated (grid (UpdateParticles (sand_world 1701)) (80, 11))
   \<and> type (grid (UpdateParticles (sand_world 1701)) (80, 10)) \<noteq> GLASS
   \<and> type (grid corner_sand_world (0, 89)) = SAND
   \<and> temperature (grid corner_sand_world (0, 89)) > 1700
   \<and> type (grid (UpdateParticles corner_sand_world) (0, 89)) = SAND"
proof -
  have c: "type (grid corner_sand_world (0, 89)) = SAND
      \<and> temperature (grid corner_sand_world (0, 89)) > 1700
      \<and> type (grid (UpdateParticles corner_sand_world) (0, 89)) = SAND"
    unfolding corner_sand_tick
    by (simp add: corner_sand_world_def placed_def PlaceParticles_cell_def)
  have v: "IsValidPosition 80 10" "IsValidPosition 80 (10 + 1)"
    by (simp_all add: valid_iff)
  have e: "type (grid (sand_world 1701) (80, 10 + 1)) = EMPTY"
    using sand_world_column [of 1 1701] by simp
  have o: "\<forall>p. IsValidPosition (fst p) (snd p) \<and> p \<noteq> (80, 10)
            \<longrightarrow> inert (type (grid (sand_world 1701) p))"
    using sand_world_inert unfolding inert_def by blast
  have l: "lifetime (grid (sand_world 1701) (80, 10)) \<le> 0" by (simp add: sand_world_sand)
  note t = sand_tick [OF v sand_world_sand(1) l e o]
  have a: "grid (UpdateParticles (sand_world 1701)) (80, 11)
           = (grid (sand_world 1701) (80, 10))\<lparr>updated := True\<rparr>"
    using t by simp
  have "IsValidPosition (fst ((80, 10) :: pos)) (snd ((80, 10) :: pos))
      \<and> ((80, 10) :: pos) \<noteq> (80, 10 + 1)"
    by (simp add: valid_iff)
  then have b: "inert (type (grid (UpdateParticles (sand_world 1701)) (80, 10)))"
    using t by blast
  show ?thesis
    using b c unfolding a by (auto simp: sand_world_sand inert_def)
qed

text \<open>
  Claim C2, amended. Let \<^verbatim>\<open>UpdateParticle\<close> visit a Sand cell at \<open>(x, y)\<close> that has not been
  processed in this tick, has no running lifetime counter and cannot move: the cell below
  it and the two cells diagonally below it are not Empty (or are outside the grid). If the
  temperature the diffusion stage of this visit gives the cell is above 1700, then after
  the visit the cell is Glass, with its flag set and that temperature, and every other
  cell of the grid is as before: no further reaction is applied.
\<close>

theorem blocked_hot_sand_becomes_glass:
  assumes "IsValidPosition x y" and "\<not> updated (grid w (x, y))"
    and "type (grid w (x, y)) = SAND" and "lifetime (grid w (x, y)) \<le> 0"
    and "\<not> (y < GRID_HEIGHT - 1 \<and> type (grid w (x, y + 1)) = EMPTY)"
    and "\<not> (IsValidPosition (x - 1) (y + 1) \<and> type (grid w (x - 1, y + 1)) = EMPTY)"
    and "\<not> (IsValidPosition (x + 1) (y + 1) \<and> type (grid w (x + 1, y + 1)) = EMPTY)"
    and "temperature (UpdateTemperature (grid w) x y (x, y)) > 1700"
  shows "grid (UpdateParticle w x y)
           = (grid w)((x, y) := (grid w (x, y))
                \<lparr>updated := True,
                 temperature := temperature (UpdateTemperature (grid w) x y (x, y)),
                 type := GLASS\<rparr>)"
proof -
  let ?t = "temperature (UpdateTemperature (grid w) x y (x, y))"
  let ?g1 = "(grid w)((x, y) := (grid w (x, y))\<lparr>updated := True\<rparr>)"
  let ?w2 = "UpdatePhysics (w\<lparr>grid := ?g1\<rparr>) x y"
  let ?g3 = "(grid w)((x, y) := (grid w (x, y))\<lparr>updated := True, temperature := ?t\<rparr>)"
  let ?w3 = "?w2\<lparr>grid := UpdateTemperature (grid ?w2) x y\<rparr>"
  let ?w4 = "HandleParticleInteractions ?w3 x y"
  have ne: "(x - 1, y + 1) \<noteq> (x, y)" "(x + 1, y + 1) \<noteq> (x, y)" "(x, y + 1) \<noteq> (x, y)"
    by simp_all
  have g2: "grid ?w2 = ?g1"
    using UpdatePhysics_blocked_sand [of "w\<lparr>grid := ?g1\<rparr>" x y] assms(3,5,6,7) by simp
  have g3: "UpdateTemperature (grid ?w2) x y = ?g3"
    unfolding g2 by (rule UpdateTemperature_flagged)
  have w4: "?w4 = ?w3"
    by (rule HandleParticleInteractions_inert) (simp add: g3 assms(3))
  have "ProcessChemicalReactions ?g3 x y = ?g3((x, y) := (?g3 (x, y))\<lparr>type := GLASS\<rparr>)"
    using assms(3,8) by (simp add: ProcessChemicalReactions_def Let_def)
  then have "grid (?w4\<lparr>grid := ProcessChemicalReactions (grid ?w4) x y\<rparr>)
      = ?g3((x, y) := (?g3 (x, y))\<lparr>type := GLASS\<rparr>)"
    unfolding w4 by (simp add: g3)
  moreover have "UpdateParticle w x y = ?w4\<lparr>grid := ProcessChemicalReactions (grid ?w4) x y\<rparr>"
    using assms(1,2,4) unfolding UpdateParticle_def by (simp add: Let_def)
  moreover have "?g3((x, y) := (?g3 (x, y))\<lparr>type := GLASS\<rparr>)
      = (grid w)((x, y) := (grid w (x, y))\<lparr>updated := True, temperature := ?t, type := GLASS\<rparr>)"
    by (rule ext) simp
  ultimately show ?thesis by simp
qed

text \<open>The initial grid with a Sand cell of temperature 3000 in the corner \<open>(0, 89)\<close>, the
  first position a tick visits: the visit turns the cell to Glass, and Glass it is after
  the tick.\<close>

definition glowing_sand_world :: "unit world" where
  "glowing_sand_world =
     \<lparr>grid = (InitializeGrid empty_cells)((0, 89) := (placed SAND)\<lparr>temperature := 3000\<rparr>),
      rnd = (\<lambda>n. n)\<rparr>"

lemma glowing_sand_diffusion:
  "temperature (UpdateTemperature (grid glowing_sand_world) 0 89 (0, 89)) = 2642.35"
  by (simp add: UpdateTemperature_def for_neighbours_flat offsets_def UpdateTemperature_body_def
      valid_iff TEMPERATURE_SPREAD_def COOLING_RATE_def glowing_sand_world_def
      InitializeGrid_eq InitializeGrid_cell_def Let_def empty_cells_def default_Particle_def
      placed_def PlaceParticles_cell_def props_def)

theorem blocked_hot_sand_becomes_glass_witness:
  "grid (UpdateParticle glowing_sand_world 0 89) (0, 89)
     = (placed SAND)\<lparr>updated := True, temperature := 2642.35, type := GLASS\<rparr>
   \<and> grid (UpdateParticle glowing_sand_world 0 89) (1, 88) = grid glowing_sand_world (1, 88)
   \<and> type (grid (UpdateParticles glowing_sand_world) (0, 89)) = GLASS"
proof -
  let ?w = glowing_sand_world
  have c: "grid ?w (0, 89) = (placed SAND)\<lparr>temperature := 3000\<rparr>"
    by (simp add: glowing_sand_world_def)
  have h: "IsValidPosition 0 89" "\<not> updated (grid ?w (0, 89))" "type (grid ?w (0, 89)) = SAND"
    "lifetime (grid ?w (0, 89)) \<le> 0"
    "\<not> (89 < GRID_HEIGHT - 1 \<and> type (grid ?w (0, 89 + 1)) = EMPTY)"
    "\<not> (IsValidPosition (0 - 1) (89 + 1) \<and> type (grid ?w (0 - 1, 89 + 1)) = EMPTY)"
    "\<not> (IsValidPosition (0 + 1) (89 + 1) \<and> type (grid ?w (0 + 1, 89 + 1)) = EMPTY)"
    "temperature (UpdateTemperature (grid ?w) 0 89 (0, 89)) > 1700"
    by (simp_all add: glowing_sand_diffusion c valid_iff GRID_HEIGHT_eq placed_fields props_def)
  have r: "reset_updated (grid ?w) = grid ?w"
    by (rule ext)
       (simp add: reset_updated_eq glowing_sand_world_def InitializeGrid_eq
          InitializeGrid_cell_def Let_def placed_fields placed_def PlaceParticles_cell_def)
  then have w0: "?w\<lparr>grid := reset_updated (grid ?w)\<rparr> = ?w" by simp
  define w1 where "w1 = UpdateParticle ?w 0 89"
  have g1: "grid w1 = (grid ?w)((0, 89) := (grid ?w (0, 89))
                \<lparr>updated := True,
                 temperature := temperature (UpdateTemperature (grid ?w) 0 89 (0, 89)),
                 type := GLASS\<rparr>)"
    unfolding w1_def by (rule blocked_hot_sand_becomes_glass [OF h])
  obtain rest where sc: "scan_order = (0, 89) # rest" and nr: "(0, 89) \<notin> set rest"
    using scan_order_first by blast
  have rr: "\<forall>p \<in> set rest. at_rest (grid w1) p"
  proof
    fix p assume "p \<in> set rest"
    then have p: "p \<noteq> (0, 89)" using nr by auto
    then have "type (grid ?w p) = EMPTY \<or> type (grid ?w p) = WALL" "lifetime (grid ?w p) = - 1"
      by (simp_all add: glowing_sand_world_def InitializeGrid_eq InitializeGrid_cell_def Let_def
          empty_cells_def default_Particle_def)
    then show "at_rest (grid w1) p" using p by (intro still_at_rest) (simp_all add: g1)
  qed
  have "UpdateParticles ?w = fold (\<lambda>(x, y) w. UpdateParticle w x y) rest w1"
    unfolding UpdateParticles_scan w0 sc w1_def by simp
  then have "grid (UpdateParticles ?w) (0, 89) = grid w1 (0, 89)"
    using fold_at_rest [OF rr] nr by simp
  then have 3: "type (grid (UpdateParticles ?w) (0, 89)) = GLASS" by (simp add: g1)
  show ?thesis
    using 3 g1 unfolding w1_def by (simp add: glowing_sand_diffusion c)
qed

subsection \<open>C3: a grain of sand falls one row per tick\<close>

text \<open>
  Claim C3. Let the cell at \<open>(x, y)\<close> be Sand without a running lifetime counter (as every
  Sand cell the brush places: lifetime \<open>-1\<close>), let the \<open>n\<close> cells below it be Empty, and let
  every other cell of the grid be Empty or Wall. Then after \<open>k \<le> n\<close> ticks the Sand is at
  \<open>(x, y + k)\<close>, exactly \<open>k\<close> rows down, and it is still the only cell that is neither Empty
  nor Wall: it descends one row per tick, skips none, and is in the lowest of the \<open>n\<close>
  empty rows after exactly \<open>n\<close> ticks.
\<close>

theorem sand_falls_one_row_per_tick:
  assumes "IsValidPosition x y" and "IsValidPosition x (y + int n)"
    and "type (grid w (x, y)) = SAND" and "lifetime (grid w (x, y)) \<le> 0"
    and "\<forall>k. 1 \<le> k \<and> k \<le> n \<longrightarrow> type (grid w (x, y + int k)) = EMPTY"
    and "\<forall>p. IsValidPosition (fst p) (snd p) \<and> p \<noteq> (x, y)
            \<longrightarrow> type (grid w p) = EMPTY \<or> type (grid w p) = WALL"
    and "k \<le> n"
  shows "type (grid ((UpdateParticles ^^ k) w) (x, y + int k)) = SAND
       \<and> (\<forall>p. IsValidPosition (fst p) (snd p) \<and> p \<noteq> (x, y + int k)
              \<longrightarrow> type (grid ((UpdateParticles ^^ k) w) p) = EMPTY
                \<or> type (grid ((UpdateParticles ^^ k) w) p) = WALL)"
proof -
  have "falling_sand w x y n"
    unfolding falling_sand_def inert_def using assms(1-6) by blast
  then have "falling_sand ((UpdateParticles ^^ k) w) x (y + int k) (n - k)"
    using assms(7) by (rule falling_sand_funpow)
  then show ?thesis unfolding falling_sand_def inert_def by blast
qed

theorem sand_falls_one_row_per_tick_witness:
  "type (grid ((UpdateParticles ^^ 78) (sand_world 20)) (80, 88)) = SAND
   \<and> type (grid ((UpdateParticles ^^ 1) (sand_world 20)) (80, 11)) = SAND
   \<and> type (grid ((UpdateParticles ^^ 1) (sand_world 20)) (80, 10)) \<noteq> SAND"
proof -
  have v: "IsValidPosition 80 10" "IsValidPosition 80 (10 + int 78)"
    by (simp_all add: valid_iff)
  have c: "\<forall>k. 1 \<le> k \<and> k \<le> 78 \<longrightarrow> type (grid (sand_world 20) (80, 10 + int k)) = EMPTY"
    using sand_world_column by blast
  have o: "\<forall>p. IsValidPosition (fst p) (snd p) \<and> p \<noteq> (80, 10)
            \<longrightarrow> type (grid (sand_world 20) p) = EMPTY \<or> type (grid (sand_world 20) p) = WALL"
    using sand_world_inert by blast
  have l: "lifetime (grid (sand_world 20) (80, 10)) \<le> 0" by (simp add: sand_world_sand)
  note th = sand_falls_one_row_per_tick [OF v sand_world_sand(1) l c o]
  have "type (grid ((UpdateParticles ^^ 78) (sand_world 20)) (80, 10 + int 78)) = SAND"
    using th [of 78] by blast
  moreover have "type (grid ((UpdateParticles ^^ 1) (sand_world 20)) (80, 10 + int 1)) = SAND"
    using th [of 1] by simp
  moreover have "type (grid ((UpdateParticles ^^ 1) (sand_world 20)) (80, 10)) = EMPTY
      \<or> type (grid ((UpdateParticles ^^ 1) (sand_world 20)) (80, 10)) = WALL"
  proof -
    have "IsValidPosition (fst ((80, 10) :: pos)) (snd ((80, 10) :: pos))
        \<and> ((80, 10) :: pos) \<noteq> (80, 10 + int 1)"
      by (simp add: valid_iff)
    moreover have "(1 :: nat) \<le> 78" by simp
    ultimately show ?thesis using th [of 1] by blast
  qed
  ultimately show ?thesis by auto
qed

subsection \<open>C4: one tick and the occupants it processes\<close>







subsection \<open>C5: the chance of ignition\<close>

text \<open>A Fire cell at \<open>(5, 5)\<close> whose only flammable neighbour is Wood at \<open>(4, 4)\<close>; the
  next raw draw of the generator is \<open>r\<close>.\<close>

definition fire_world :: "nat \<Rightarrow> unit world" where
  "fire_world r =
     \<lparr>grid = empty_cells((5, 5) := placed FIRE, (4, 4) := placed WOOD),
      rnd = (\<lambda>n. if n = 0 then r else 0)\<rparr>"

lemma fire_body_elsewhere:
  "p \<noteq> (x + dx, y + dy) \<Longrightarrow> grid (fire_body x y dx dy w) p = grid w p"
  by (simp add: fire_body_def GetRandomValue_def set_type_def Let_def)

lemma fire_fold_elsewhere:
  "\<forall>(dx, dy) \<in> set os. p \<noteq> (x + dx, y + dy) \<Longrightarrow>
   grid (fold (\<lambda>(dx, dy). fire_body x y dx dy) os w) p = grid w p"
  by (induction os arbitrary: w) (auto simp: fire_body_elsewhere)

lemma fire_loop_at_wood:
  "grid (for_neighbours (fire_body 5 5) (fire_world r)) (4, 4)
     = (if r mod 101 < 10 then (placed WOOD)\<lparr>type := FIRE\<rparr> else placed WOOD)"
proof -
  have "grid (for_neighbours (fire_body 5 5) (fire_world r)) (4, 4)
        = grid (fold (\<lambda>(dx, dy). fire_body 5 5 dx dy) (tl offsets)
                  (fire_body 5 5 (- 1) (- 1) (fire_world r))) (4, 4)"
    by (simp add: for_neighbours_flat offsets_def)
  also have "\<dots> = grid (fire_body 5 5 (- 1) (- 1) (fire_world r)) (4, 4)"
    by (rule fire_fold_elsewhere) (simp add: offsets_def)
  also have "\<dots> = (if r mod 101 < 10 then (placed WOOD)\<lparr>type := FIRE\<rparr> else placed WOOD)"
    by (simp add: fire_body_def GetRandomValue_def set_type_def
      valid_iff fire_world_def empty_cells_def placed_def PlaceParticles_cell_def
      default_Particle_def props_def Let_def)
  finally show ?thesis .
qed

lemma fire_smoke_elsewhere:
  "p \<noteq> (x, y - 1) \<Longrightarrow> grid (fire_smoke x y w) p = grid w p"
  by (simp add: fire_smoke_def GetRandomValue_def set_type_def Let_def)

lemma fire_ignites_iff:
  "type (grid (HandleParticleInteractions (fire_world r) 5 5) (4, 4)) = FIRE \<longleftrightarrow> r mod 101 < 10"
proof -
  have "type (grid (fire_world r) (5, 5)) = FIRE"
    by (simp add: fire_world_def placed_def PlaceParticles_cell_def)
  then have "HandleParticleInteractions (fire_world r) 5 5
      = fire_smoke 5 5 (for_neighbours (fire_body 5 5) (fire_world r))"
    by (simp add: HandleParticleInteractions_def)
  then show ?thesis
    by (simp add: fire_smoke_elsewhere fire_loop_at_wood placed_def PlaceParticles_cell_def)
qed

text \<open>The other draws: Smoke above a Fire cell, Acid on a neighbour, and the coin flip of
  the movement stage.\<close>

definition smoke_world :: "nat \<Rightarrow> unit world" where
  "smoke_world r =
     \<lparr>grid = empty_cells((5, 5) := placed FIRE), rnd = (\<lambda>n. if n = 0 then r else 0)\<rparr>"

lemma smoke_chance_is_5_in_101:
  "card {r. r < 101 \<and> type (grid (fire_smoke 5 5 (smoke_world r)) (5, 4)) = SMOKE} = 5"
proof -
  have e: "type (grid (fire_smoke 5 5 (smoke_world r)) (5, 4)) = SMOKE \<longleftrightarrow> r mod 101 < 5" for r
    by (simp add: fire_smoke_def GetRandomValue_def set_type_def smoke_world_def valid_iff
        empty_cells_def default_Particle_def Let_def)
  have "{r. r < 101 \<and> type (grid (fire_smoke 5 5 (smoke_world r)) (5, 4)) = SMOKE}
        = {r. r < 5}" by (auto simp: e)
  then show ?thesis by simp
qed

lemma acid_chance_is_20_in_101:
  "card {r. r < 101 \<and> type (grid (acid_body 5 5 (- 1) (- 1) (fire_world r)) (4, 4)) = EMPTY} = 20"
proof -
  have e: "type (grid (acid_body 5 5 (- 1) (- 1) (fire_world r)) (4, 4)) = EMPTY \<longleftrightarrow> r mod 101 < 20"
    for r
    by (simp add: acid_body_def GetRandomValue_def set_type_def fire_world_def valid_iff
        empty_cells_def placed_def PlaceParticles_cell_def default_Particle_def Let_def)
  have "{r. r < 101 \<and> type (grid (acid_body 5 5 (- 1) (- 1) (fire_world r)) (4, 4)) = EMPTY}
        = {r. r < 20}" by (auto simp: e)
  then show ?thesis by simp
qed

lemma coin_flip_is_1_in_2:
  "card {r. r < 2 \<and> fst (GetRandomValue 0 1 (fire_world r)) * 2 - 1 = - 1} = 1
   \<and> card {r. r < 2 \<and> fst (GetRandomValue 0 1 (fire_world r)) * 2 - 1 = 1} = 1"
proof -
  have v: "fst (GetRandomValue 0 1 (fire_world r)) = int (r mod 2)" for r
    by (simp add: GetRandomValue_def fire_world_def)
  have "{r. r < 2 \<and> fst (GetRandomValue 0 1 (fire_world r)) * 2 - 1 = - 1} = {0}"
  proof (rule set_eqI)
    fix r :: nat
    have "r < 2 \<Longrightarrow> r = 0 \<or> r = 1" by arith
    then show "r \<in> {r. r < 2 \<and> fst (GetRandomValue 0 1 (fire_world r)) * 2 - 1 = - 1} \<longleftrightarrow> r \<in> {0}"
      unfolding v by auto
  qed
  moreover have "{r. r < 2 \<and> fst (GetRandomValue 0 1 (fire_world r)) * 2 - 1 = 1} = {1}"
  proof (rule set_eqI)
    fix r :: nat
    have "r < 2 \<Longrightarrow> r = 0 \<or> r = 1" by arith
    then show "r \<in> {r. r < 2 \<and> fst (GetRandomValue 0 1 (fire_world r)) * 2 - 1 = 1} \<longleftrightarrow> r \<in> {1}"
      unfolding v by auto
  qed
  ultimately show ?thesis by simp
qed

text \<open>
  Claim C5, for the ignition of a flammable neighbour. \<^verbatim>\<open>GetRandomValue(0, 100)\<close> has 101
  equally likely results, and the test \<^verbatim>\<open>< 10\<close> holds for ten of them: the Wood cell
  ignites with probability \<open>10 / 101\<close>.
\<close>

theorem ignition_chance_is_10_in_101:
  "card {r. r < 101 \<and> type (grid (HandleParticleInteractions (fire_world r) 5 5) (4, 4)) = FIRE} = 10
   \<and> card {r::nat. r < 101} = 101"
proof -
  have "{r. r < 101 \<and> type (grid (HandleParticleInteractions (fire_world r) 5 5) (4, 4)) = FIRE}
        = {r. r < 10}"
    by (auto simp: fire_ignites_iff)
  then show ?thesis by simp
qed

subsection \<open>C6: saving and loading\<close>

text \<open>
  Claim C6. When the file can be opened for writing, \<^verbatim>\<open>SaveToFile\<close> writes one record per
  cell in storage order (\<open>x\<close> outer, \<open>y\<close> inner), and \<^verbatim>\<open>LoadFromFile\<close> of that file into any
  grid \<open>g1\<close> of the same dimensions, a freshly initialised one included, yields at every
  valid position the saved cell as a whole: material kind, temperature, lifetime and all
  other fields.
\<close>

theorem save_load_roundtrip:
  assumes "writable fs filename"
  shows "contents (SaveToFile fs g filename) filename = Some (map g storage_order)
       \<and> LoadFromFile (SaveToFile fs g filename) g1 filename
           = (\<lambda>p. if IsValidPosition (fst p) (snd p) then g p else g1 p)"
  using SaveToFile_contents [OF assms, of g] LoadFromFile_all by blast

definition no_files :: "bool \<Rightarrow> unit filesystem" where
  "no_files wr = \<lparr>writable = (\<lambda>name. wr), contents = (\<lambda>name. None)\<rparr>"

theorem save_load_roundtrip_witness:
  "LoadFromFile (SaveToFile (no_files True) salt_water_cells ''save.dat'')
      (InitializeGrid empty_cells) ''save.dat'' (5, 5) = placed WATER
   \<and> LoadFromFile (SaveToFile (no_files True) salt_water_cells ''save.dat'')
      (InitializeGrid empty_cells) ''save.dat'' (6, 5) = placed SALT"
  using save_load_roundtrip [of "no_files True" "''save.dat''" salt_water_cells
      "InitializeGrid empty_cells"]
  by (simp add: no_files_def valid_iff salt_water_cells_def)

subsection \<open>C7: the brush\<close>

lemma brush_distance:
  assumes "0 \<le> r"
  shows "sqrt (real_of_int n) \<le> real_of_int r \<longleftrightarrow> n \<le> r * r"
proof -
  have "sqrt (real_of_int n) \<le> real_of_int r \<longleftrightarrow> sqrt (real_of_int n) \<le> sqrt ((real_of_int r)\<^sup>2)"
    using assms by simp
  also have "\<dots> \<longleftrightarrow> real_of_int n \<le> (real_of_int r)\<^sup>2"
    by (rule real_sqrt_le_iff)
  also have "\<dots> \<longleftrightarrow> real_of_int n \<le> real_of_int (r * r)"
    by (simp add: power2_eq_square)
  also have "\<dots> \<longleftrightarrow> n \<le> r * r"
    by (rule of_int_le_iff)
  finally show ?thesis .
qed

text \<open>
  Claim C7. \<^verbatim>\<open>PlaceParticles\<close> with a valid centre \<open>(cx, cy)\<close> overwrites exactly the valid
  cells whose Euclidean distance from the centre is at most \<^verbatim>\<open>brushSize\<close>: such a cell gets
  the material \<open>t\<close>, the colour, temperature and lifetime of \<open>t\<close> in the table, zero
  velocities and a cleared processed flag. Every other cell is unchanged, and with an
  invalid centre the whole grid is unchanged.
\<close>

theorem paint_disc_exactly:
  "PlaceParticles brushSize g cx cy t p =
     (if IsValidPosition cx cy \<and> IsValidPosition (fst p) (snd p)
         \<and> sqrt (real_of_int ((fst p - cx) * (fst p - cx) + (snd p - cy) * (snd p - cy)))
             \<le> real_of_int brushSize
      then (g p)\<lparr>type := t, color := pcolor (particleProps t),
                 temperature := ptemperature (particleProps t),
                 velocity_x := 0, velocity_y := 0,
                 lifetime := plifetime (particleProps t), updated := False\<rparr>
      else g p)"
  by (simp add: PlaceParticles_def fold_nested_flat fold_paint in_brush_square
      PlaceParticles_cell_def)

theorem paint_disc_exactly_witness:
  "PlaceParticles 3 empty_cells 10 10 SAND (13, 10) = placed SAND
   \<and> PlaceParticles 3 empty_cells 10 10 SAND (12, 12) = placed SAND
   \<and> PlaceParticles 3 empty_cells 10 10 SAND (13, 11) = default_Particle
   \<and> PlaceParticles 3 empty_cells 200 10 SAND (159, 10) = default_Particle"
proof -
  have s8: "sqrt 8 \<le> (3 :: real)" using brush_distance [of 3 8] by simp
  have s10: "\<not> sqrt 10 \<le> (3 :: real)" using brush_distance [of 3 10] by simp
  show ?thesis
  using paint_disc_exactly [of 3 empty_cells 10 10 SAND "(13, 10)"]
    paint_disc_exactly [of 3 empty_cells 10 10 SAND "(12, 12)"]
    paint_disc_exactly [of 3 empty_cells 10 10 SAND "(13, 11)"]
    paint_disc_exactly [of 3 empty_cells 200 10 SAND "(159, 10)"]
  by (simp add: s8 s10 valid_iff placed_def PlaceParticles_cell_def empty_cells_def)
qed

subsection \<open>C8: Water dissolves adjacent Salt\<close>



















subsection \<open>C9: interactions and reactions write the material kind only\<close>

text \<open>
  Claim C9. Whatever \<^verbatim>\<open>HandleParticleInteractions\<close> and \<^verbatim>\<open>ProcessChemicalReactions\<close> do at
  \<open>(x, y)\<close>, every cell \<open>p\<close> of the grid keeps its temperature, lifetime, velocity fields and
  processed flag; the interactions keep every colour, and the reactions change a colour
  only for the Water cell at \<open>(x, y)\<close>, to the salt-water tint. So a cell turned into Fire,
  Smoke, Steam, Ice, Metal, Glass or Empty by these rules keeps the lifetime and the
  temperature it had, instead of the defaults of its new material.
\<close>

theorem transformations_write_type_only:
  "temperature (grid (HandleParticleInteractions w x y) p) = temperature (grid w p)
   \<and> lifetime (grid (HandleParticleInteractions w x y) p) = lifetime (grid w p)
   \<and> velocity_x (grid (HandleParticleInteractions w x y) p) = velocity_x (grid w p)
   \<and> velocity_y (grid (HandleParticleInteractions w x y) p) = velocity_y (grid w p)
   \<and> updated (grid (HandleParticleInteractions w x y) p) = updated (grid w p)
   \<and> color (grid (HandleParticleInteractions w x y) p) = color (grid w p)
   \<and> temperature (ProcessChemicalReactions g x y p) = temperature (g p)
   \<and> lifetime (ProcessChemicalReactions g x y p) = lifetime (g p)
   \<and> velocity_x (ProcessChemicalReactions g x y p) = velocity_x (g p)
   \<and> velocity_y (ProcessChemicalReactions g x y p) = velocity_y (g p)
   \<and> updated (ProcessChemicalReactions g x y p) = updated (g p)
   \<and> (color (ProcessChemicalReactions g x y p) = color (g p)
      \<or> (p = (x, y) \<and> type (g (x, y)) = WATER
          \<and> color (ProcessChemicalReactions g x y p) = SKYBLUE))"
  by (intro conjI only_typeD [OF only_type_HandleParticleInteractions]
      ProcessChemicalReactions_fields ProcessChemicalReactions_color)

subsection \<open>C10: files that cannot be opened\<close>

text \<open>
  Claim C10. If \<^verbatim>\<open>fopen\<close> fails, \<^verbatim>\<open>SaveToFile\<close> changes nothing (it never writes the grid, and
  the file system stays as it was) and \<^verbatim>\<open>LoadFromFile\<close> returns the grid it was given. Both
  functions are total and have no error result.
\<close>

theorem unopenable_file_is_noop:
  "(\<not> writable fs filename \<longrightarrow> SaveToFile fs g filename = fs)
   \<and> (contents fs filename = None \<longrightarrow> LoadFromFile fs g filename = g)"
  by (simp add: SaveToFile_def LoadFromFile_def)

theorem unopenable_file_is_noop_witness:
  "SaveToFile (no_files False) salt_water_cells ''save.dat'' = no_files False
   \<and> LoadFromFile (no_files False) salt_water_cells ''save.dat'' = salt_water_cells"
  using unopenable_file_is_noop [of "no_files False" "''save.dat''" salt_water_cells]
  by (simp add: no_files_def)

end
